theory Spec2Isabelle
  imports Main "HOL-Library.AList" "HOL-Library.Multiset"
begin

section \<open>Values shared by the ingestion and the serving code\<close>

text \<open>
  Python exceptions are values. Only the exception classes that the modelled functions
  raise or catch are listed; \<open>HTTP404\<close> is the \<^verbatim>\<open>HTTPException(status_code=404)\<close>
  of \<^verbatim>\<open>expand_graph\<close>, \<open>ValidationError\<close> is what the response schema raises,
  \<open>SqlError\<close> stands for any exception of the database engine.
\<close>

datatype error =
    KeyError | IndexError | TypeError | AttributeError
  | LoadFailure | EncoderFailure | SqlError | HTTP404 | ValidationError
  | JSONDecodeError | ClientError | FileNotFoundError | BadGzipFile | EOFError

text \<open>
  What \<^verbatim>\<open>json.loads\<close> returns. Python's \<^verbatim>\<open>None\<close> and JSON's \<^verbatim>\<open>null\<close> are the
  same value \<open>JNull\<close>. A number that is not an integer is kept as its text; the code never
  computes with a number.
\<close>

datatype json =
    JNull | JBool bool | JNum int | JFloat string | JStr string
  | JArr "json list" | JObj "(string \<times> json) list"

datatype log_entry = Info string | Warning string | Error string

text \<open>A natural number in decimal, as an f-string prints it.\<close>

fun str_nat :: "nat \<Rightarrow> string" where
  "str_nat n =
     (if n < 10 then [char_of (48 + n)]
      else str_nat (n div 10) @ [char_of (48 + n mod 10)])"

declare str_nat.simps [simp del]

section \<open>The embedding cache and the similarity query (semantic\_engine.py)\<close>

text \<open>
  A row of the \<^verbatim>\<open>works\<close> table, with the columns of \<^verbatim>\<open>init_db\<close>: the key is a
  VARCHAR, the other columns are nullable (NULL is \<open>None\<close>) of type VARCHAR or INTEGER, the
  last one holds JSON text.
\<close>

record work_row =
  work_id :: string
  doi :: "string option"
  title :: "string option"
  publication_year :: "int option"
  cited_by_count :: "int option"
  first_author :: "string option"
  venue :: "string option"
  abstract_inverted_index :: "string option"

text \<open>
  The state that the functions read and write: the three tables of the DuckDB file
  (\<^verbatim>\<open>works\<close>, \<^verbatim>\<open>citations\<close>, \<^verbatim>\<open>vector_cache\<close>, each in row order), the
  \<^verbatim>\<open>is_loaded\<close> flag of the singleton \<^verbatim>\<open>SemanticEngine\<close>, the batches of texts
  handed to the encoder so far (one entry per forward pass), and the log. A vector is a
  value of type \<open>'v\<close>; \<^verbatim>\<open>tolist\<close> and \<^verbatim>\<open>np.array\<close> carry it unchanged.
\<close>

record 'v state =
  works :: "work_row list"
  citations :: "(string \<times> string) list"
  vector_cache :: "(string \<times> 'v) list"
  is_loaded :: bool
  encoder_calls :: "string list list"
  logged :: "log_entry list"

text \<open>
  What lies outside the repository: whether \<^verbatim>\<open>from_pretrained\<close> and
  \<^verbatim>\<open>load_adapter\<close> succeed, the tokenizer and the forward pass as one function from the
  batch of texts to one vector per text (\<open>None\<close> when it raises), the engine's
  \<^verbatim>\<open>array_cosine_similarity\<close> with scores in a linear order, and what the engine does
  with a cache query whose pasted text is not a plain list of string literals: it may
  return any rows or raise, and it may change the three tables (the client runs every
  statement of a text that holds several).
\<close>

type_synonym 'v tables = "work_row list \<times> (string \<times> string) list \<times> (string \<times> 'v) list"

record ('v, 's) env =
  device :: string
  load_ok :: bool
  encoder :: "string list \<Rightarrow> 'v list option"
  array_cosine_similarity :: "'v \<Rightarrow> 'v \<Rightarrow> 's"
  execute_other :: "string \<Rightarrow> 'v tables \<Rightarrow> (error + (string \<times> 'v) list) \<times> 'v tables"

text \<open>An element of \<^verbatim>\<open>papers\<close>: a dict with the key \<^verbatim>\<open>id\<close> and maybe \<^verbatim>\<open>title\<close>
  and \<^verbatim>\<open>abstract\<close> (\<open>None\<close> is an absent key).\<close>

record paper =
  p_id :: string
  p_title :: "json option"
  p_abstract :: "json option"

definition log_msg :: "log_entry \<Rightarrow> 'v state \<Rightarrow> 'v state" where
  "log_msg m st = st\<lparr>logged := logged st @ [m]\<rparr>"

text \<open>\<^verbatim>\<open>load_model\<close>: nothing when the model is loaded; otherwise the load is attempted
  and a failure is logged and raised again. The text of the exception is left out of the
  messages.\<close>

definition load_model :: "('v, 's) env \<Rightarrow> 'v state \<Rightarrow> (error + unit) \<times> 'v state" where
  "load_model en st =
     (if is_loaded st then (Inr (), st)
      else
        let st1 = log_msg (Info (''Loading SPECTER2 model on '' @ device en @ ''...'')) st in
        if load_ok en
        then (Inr (), log_msg (Info ''SPECTER2 model loaded successfully.'')
                        (st1\<lparr>is_loaded := True\<rparr>))
        else (Inl LoadFailure, log_msg (Error ''Failed to load SPECTER2 model: '') st1))"

subsection \<open>The interpolated cache query\<close>

definition sq :: char where
  "sq = CHR 0x27"

fun join_comma :: "string list \<Rightarrow> string" where
  "join_comma [] = []"
| "join_comma [x] = x"
| "join_comma (x # y # ys) = x @ '','' @ join_comma (y # ys)"

text \<open>\<^verbatim>\<open>",".join([f"'{pid}'" for pid in paper_ids])\<close>\<close>

definition ids_str :: "string list \<Rightarrow> string" where
  "ids_str paper_ids = join_comma (map (\<lambda>pid. sq # pid @ [sq]) paper_ids)"

text \<open>
  The text \<open>ids_str\<close> is pasted between the parentheses of \<^verbatim>\<open>paper_id IN (...)\<close>, so the
  engine, not the code, decides what the query asks for. \<open>sql_in_list\<close> recognises the
  texts that are a plain list of string literals, each between single quotes, separated by
  single commas and nothing else, a doubled quote inside a literal standing for one quote;
  for these it returns the literals, as SQL reads them. It returns \<open>None\<close> for every other
  text (blanks, operators, comments, several statements), which says nothing about what
  SQL makes of it. The arguments are the scanner's mode, the literal being read (reversed)
  and the literals read (reversed).
\<close>

datatype lex_mode = Expect | InLit | AfterQuote

fun sql_in_list :: "lex_mode \<Rightarrow> string \<Rightarrow> string list \<Rightarrow> string \<Rightarrow> string list option" where
  "sql_in_list Expect cur seen [] = None"
| "sql_in_list Expect cur seen (c # cs) =
     (if c = sq then sql_in_list InLit [] seen cs else None)"
| "sql_in_list InLit cur seen [] = None"
| "sql_in_list InLit cur seen (c # cs) =
     (if c = sq then sql_in_list AfterQuote cur seen cs
      else sql_in_list InLit (c # cur) seen cs)"
| "sql_in_list AfterQuote cur seen [] = Some (rev (rev cur # seen))"
| "sql_in_list AfterQuote cur seen (c # cs) =
     (if c = sq then sql_in_list InLit (sq # cur) seen cs
      else if c = CHR '','' then sql_in_list Expect [] (rev cur # seen) cs
      else None)"

text \<open>
  \<^verbatim>\<open>SELECT paper_id, embedding FROM vector_cache WHERE paper_id IN ({ids_str})\<close>: for a
  plain list of literals, the rows whose key is one of them; for any other text, whatever
  the engine does with it.
\<close>

definition select_cached ::
  "('v, 's) env \<Rightarrow> 'v state \<Rightarrow> string \<Rightarrow> (error + (string \<times> 'v) list) \<times> 'v state" where
  "select_cached en st txt =
     (case sql_in_list Expect [] [] txt of
        Some lits \<Rightarrow> (Inr (filter (\<lambda>row. fst row \<in> set lits) (vector_cache st)), st)
      | None \<Rightarrow>
          (case execute_other en txt (works st, citations st, vector_cache st) of
             (r, (w, c, v)) \<Rightarrow> (r, st\<lparr>works := w, citations := c, vector_cache := v\<rparr>)))"

subsection \<open>get\_embeddings\<close>

text \<open>\<^verbatim>\<open>p.get(key, '')\<close> as an operand of \<^verbatim>\<open>+\<close> with a string: only a string
  is accepted.\<close>

fun get_text :: "json option \<Rightarrow> error + string" where
  "get_text None = Inr []"
| "get_text (Some (JStr s)) = Inr s"
| "get_text (Some _) = Inl TypeError"

text \<open>\<^verbatim>\<open>p.get('title', '') + ' ' + p.get('abstract', '')\<close>\<close>

definition paper_text :: "paper \<Rightarrow> error + string" where
  "paper_text p =
     (case get_text (p_title p) of
        Inl e \<Rightarrow> Inl e
      | Inr t \<Rightarrow>
          (case get_text (p_abstract p) of
             Inl e \<Rightarrow> Inl e
           | Inr a \<Rightarrow> Inr (t @ '' '' @ a)))"

fun paper_texts :: "paper list \<Rightarrow> error + string list" where
  "paper_texts [] = Inr []"
| "paper_texts (p # ps) =
     (case paper_text p of
        Inl e \<Rightarrow> Inl e
      | Inr t \<Rightarrow> (case paper_texts ps of Inl e \<Rightarrow> Inl e | Inr ts \<Rightarrow> Inr (t # ts)))"

text \<open>
  The loop \<^verbatim>\<open>for i, paper in enumerate(missing_papers)\<close>: \<^verbatim>\<open>new_embeddings[i]\<close>
  raises when the encoder returned fewer vectors than texts; what was stored before stays
  stored. The dict entry is set and the row is written with INSERT OR REPLACE.
\<close>

fun store_new ::
  "paper list \<Rightarrow> 'v list \<Rightarrow> (string \<times> 'v) list \<Rightarrow> 'v state
     \<Rightarrow> (error + (string \<times> 'v) list) \<times> 'v state" where
  "store_new [] new_embeddings embeddings st = (Inr embeddings, st)"
| "store_new (p # ps) [] embeddings st = (Inl IndexError, st)"
| "store_new (p # ps) (emb # embs) embeddings st =
     store_new ps embs (AList.update (p_id p) emb embeddings)
       (st\<lparr>vector_cache := AList.update (p_id p) emb (vector_cache st)\<rparr>)"

text \<open>The dict comprehension \<^verbatim>\<open>{row[0]: np.array(row[1]) for row in cached_res}\<close>.\<close>

definition dict_of_rows :: "(string \<times> 'v) list \<Rightarrow> (string \<times> 'v) list" where
  "dict_of_rows rows = fold (\<lambda>row d. AList.update (fst row) (snd row) d) rows []"

definition get_embeddings ::
  "('v, 's) env \<Rightarrow> 'v state \<Rightarrow> paper list \<Rightarrow> (error + (string \<times> 'v) list) \<times> 'v state" where
  "get_embeddings en st papers =
     (case load_model en st of
        (Inl e, st1) \<Rightarrow> (Inl e, st1)
      | (Inr _, st1) \<Rightarrow>
          let paper_ids = map p_id papers in
          if ids_str paper_ids = [] then (Inr [], st1)
          else
            (case select_cached en st1 (ids_str paper_ids) of
               (Inl e, st1') \<Rightarrow> (Inl e, st1')
             | (Inr cached_res, st1') \<Rightarrow>
                 let embeddings = dict_of_rows cached_res;
                     missing_papers =
                       filter (\<lambda>p. p_id p \<notin> fst ` set embeddings) papers in
                 if missing_papers = [] then (Inr embeddings, st1')
                 else
                   let st2 = log_msg (Info (''Generating embeddings for '' @
                                str_nat (length missing_papers) @ '' papers...'')) st1' in
                   (case paper_texts missing_papers of
                      Inl e \<Rightarrow> (Inl e, st2)
                    | Inr texts \<Rightarrow>
                        let st3 = st2\<lparr>encoder_calls := encoder_calls st2 @ [texts]\<rparr> in
                        (case encoder en texts of
                           None \<Rightarrow> (Inl EncoderFailure, st3)
                         | Some new_embeddings \<Rightarrow>
                             store_new missing_papers new_embeddings embeddings st3))))"

subsection \<open>calculate\_similarity\<close>

text \<open>
  The seed's row is read with a bound parameter. The ranking query keeps the rows whose
  key differs from the seed, orders them by descending score and returns the first
  \<open>limit\<close> of them; \<open>limit\<close> is a natural number, as the values passed (5 and 20) are.
\<close>

definition ranked :: "('v, 's::linorder) env \<Rightarrow> 'v \<Rightarrow> string \<Rightarrow> nat \<Rightarrow> (string \<times> 'v) list \<Rightarrow> (string \<times> 's) list" where
  "ranked en seed_vector seed_id limit rows =
     take limit
       (rev (sort_key snd
          (map (\<lambda>row. (fst row, array_cosine_similarity en (snd row) seed_vector))
             (filter (\<lambda>row. fst row \<noteq> seed_id) rows))))"

definition calculate_similarity ::
  "('v, 's::linorder) env \<Rightarrow> 'v state \<Rightarrow> string \<Rightarrow> nat \<Rightarrow> (error + (string \<times> 's) list) \<times> 'v state" where
  "calculate_similarity en st seed_id limit =
     (case map_of (vector_cache st) seed_id of
        None \<Rightarrow>
          (Inr [],
           log_msg (Warning (''No embedding found for seed '' @ seed_id @
                             ''. Cannot calculate similarity.'')) st)
      | Some seed_vector \<Rightarrow>
          (Inr (ranked en seed_vector seed_id limit (vector_cache st)), st))"

section \<open>Graph expansion (main.py)\<close>

text \<open>
  A node is the dict built from a row; only the focal document's dict has the key
  \<^verbatim>\<open>abstract\<close>. \<open>nodes\<close> is the dict from identifier to node, in insertion order.
  An edge is a dict with \<^verbatim>\<open>source\<close>, \<^verbatim>\<open>target\<close> and maybe \<^verbatim>\<open>type\<close>.
\<close>

record node =
  n_id :: string
  n_title :: "string option"
  n_year :: "int option"
  n_first_author :: "string option"
  n_venue :: "string option"
  n_cited_by_count :: "int option"
  n_abstract :: "string option"

record edge =
  source :: string
  target :: string
  etype :: "string option"

type_synonym graph = "(string \<times> node) list \<times> edge list"

text \<open>\<^verbatim>\<open>str(central_res[6])\<close>\<close>

fun py_str :: "string option \<Rightarrow> string" where
  "py_str None = ''None''"
| "py_str (Some s) = s"

definition central_paper :: "work_row \<Rightarrow> node" where
  "central_paper r =
     \<lparr>n_id = work_id r, n_title = title r, n_year = publication_year r,
      n_first_author = first_author r, n_venue = venue r,
      n_cited_by_count = cited_by_count r,
      n_abstract = Some (py_str (abstract_inverted_index r))\<rparr>"

definition node_of_row :: "work_row \<Rightarrow> node" where
  "node_of_row r =
     \<lparr>n_id = work_id r, n_title = title r, n_year = publication_year r,
      n_first_author = first_author r, n_venue = venue r,
      n_cited_by_count = cited_by_count r, n_abstract = None\<rparr>"

text \<open>The focal dict as \<^verbatim>\<open>get_embeddings\<close> reads it: the key \<^verbatim>\<open>title\<close> is present,
  with the value \<^verbatim>\<open>None\<close> when the column is NULL.\<close>

definition paper_of_node :: "node \<Rightarrow> paper" where
  "paper_of_node n =
     \<lparr>p_id = n_id n,
      p_title = Some (case n_title n of None \<Rightarrow> JNull | Some t \<Rightarrow> JStr t),
      p_abstract = map_option JStr (n_abstract n)\<rparr>"

text \<open>
  The two joins, \<^verbatim>\<open>citations c JOIN works w ON c.target_id = w.id WHERE c.source_id = ?\<close>
  and its mirror image, each with LIMIT 20 and no ORDER BY: the rows are taken in the
  order of the \<^verbatim>\<open>citations\<close> table.
\<close>

definition refs_query :: "'v state \<Rightarrow> string \<Rightarrow> work_row list" where
  "refs_query st paper_id =
     take 20 (concat (map (\<lambda>c. filter (\<lambda>w. work_id w = snd c) (works st))
                       (filter (\<lambda>c. fst c = paper_id) (citations st))))"

definition cited_query :: "'v state \<Rightarrow> string \<Rightarrow> work_row list" where
  "cited_query st paper_id =
     take 20 (concat (map (\<lambda>c. filter (\<lambda>w. work_id w = fst c) (works st))
                       (filter (\<lambda>c. snd c = paper_id) (citations st))))"

definition add_node :: "work_row \<Rightarrow> (string \<times> node) list \<Rightarrow> (string \<times> node) list" where
  "add_node r nodes =
     (if work_id r \<in> fst ` set nodes then nodes else nodes @ [(work_id r, node_of_row r)])"

fun refs_loop :: "string \<Rightarrow> work_row list \<Rightarrow> graph \<Rightarrow> graph" where
  "refs_loop paper_id [] g = g"
| "refs_loop paper_id (r # rs) (nodes, edges) =
     refs_loop paper_id rs
       (add_node r nodes, edges @ [\<lparr>source = paper_id, target = work_id r, etype = None\<rparr>])"

fun cited_loop :: "string \<Rightarrow> work_row list \<Rightarrow> graph \<Rightarrow> graph" where
  "cited_loop paper_id [] g = g"
| "cited_loop paper_id (r # rs) (nodes, edges) =
     cited_loop paper_id rs
       (add_node r nodes, edges @ [\<lparr>source = work_id r, target = paper_id, etype = None\<rparr>])"

text \<open>The edge dicts appended by the two loops.\<close>

definition ref_edge :: "string \<Rightarrow> work_row \<Rightarrow> edge" where
  "ref_edge paper_id r = \<lparr>source = paper_id, target = work_id r, etype = None\<rparr>"

definition cited_edge :: "string \<Rightarrow> work_row \<Rightarrow> edge" where
  "cited_edge paper_id r = \<lparr>source = work_id r, target = paper_id, etype = None\<rparr>"

text \<open>Steps 1 to 3 of \<^verbatim>\<open>expand_graph\<close>: the focal node, the references, the citations.\<close>

definition citation_graph :: "'v state \<Rightarrow> string \<Rightarrow> work_row \<Rightarrow> graph" where
  "citation_graph st paper_id central_res =
     cited_loop paper_id (cited_query st paper_id)
       (refs_loop paper_id (refs_query st paper_id)
          ([(paper_id, central_paper central_res)], []))"

text \<open>Step 4, the body of the loop over the similar papers: a paper that is not yet a
  node is looked up in \<^verbatim>\<open>works\<close>, and when the row exists the node and a tagged edge
  are added.\<close>

definition sim_step :: "'v state \<Rightarrow> string \<Rightarrow> string \<times> 's \<Rightarrow> graph \<Rightarrow> graph" where
  "sim_step st paper_id sim g =
     (if fst sim \<in> fst ` set (fst g) then g
      else
        (case find (\<lambda>w. work_id w = fst sim) (works st) of
           None \<Rightarrow> g
         | Some r \<Rightarrow>
             (fst g @ [(work_id r, node_of_row r)],
              snd g @ [\<lparr>source = paper_id, target = fst sim, etype = Some ''similarity''\<rparr>])))"

fun sim_loop :: "'v state \<Rightarrow> string \<Rightarrow> (string \<times> 's) list \<Rightarrow> graph \<Rightarrow> graph" where
  "sim_loop st paper_id [] g = g"
| "sim_loop st paper_id (sim # sims) g = sim_loop st paper_id sims (sim_step st paper_id sim g)"

text \<open>
  The response schema \<^verbatim>\<open>Paper\<close>: \<^verbatim>\<open>id\<close> and \<^verbatim>\<open>title\<close> are required strings,
  the other four fields are optional. \<^verbatim>\<open>Paper(**p)\<close> raises when the title is
  \<^verbatim>\<open>None\<close> and ignores the key \<^verbatim>\<open>abstract\<close>, which the schema does not have. The
  values of the other keys come from columns of the types the schema asks for.
\<close>

record Paper =
  Paper_id :: string
  Paper_title :: string
  Paper_year :: "int option"
  Paper_first_author :: "string option"
  Paper_venue :: "string option"
  Paper_cited_by_count :: "int option"

definition Paper_of :: "node \<Rightarrow> error + Paper" where
  "Paper_of p =
     (case n_title p of
        None \<Rightarrow> Inl ValidationError
      | Some t \<Rightarrow>
          Inr \<lparr>Paper_id = n_id p, Paper_title = t, Paper_year = n_year p,
               Paper_first_author = n_first_author p, Paper_venue = n_venue p,
               Paper_cited_by_count = n_cited_by_count p\<rparr>)"

text \<open>The list comprehension \<^verbatim>\<open>[Paper(**p) for p in nodes.values()]\<close>.\<close>

fun Papers :: "node list \<Rightarrow> error + Paper list" where
  "Papers [] = Inr []"
| "Papers (p # ps) =
     (case Paper_of p of
        Inl e \<Rightarrow> Inl e
      | Inr x \<Rightarrow> (case Papers ps of Inl e \<Rightarrow> Inl e | Inr xs \<Rightarrow> Inr (x # xs)))"

text \<open>\<^verbatim>\<open>GraphResponse(nodes=[...], edges=edges)\<close>, after the \<^verbatim>\<open>finally\<close> block.\<close>

definition response :: "graph \<Rightarrow> error + Paper list \<times> edge list" where
  "response g =
     (case Papers (map snd (fst g)) of
        Inl e \<Rightarrow> Inl e
      | Inr ps \<Rightarrow> Inr (ps, snd g))"

definition expand_graph ::
  "('v, 's::linorder) env \<Rightarrow> 'v state \<Rightarrow> string \<Rightarrow> (error + Paper list \<times> edge list) \<times> 'v state" where
  "expand_graph en st paper_id =
     (case find (\<lambda>w. work_id w = paper_id) (works st) of
        None \<Rightarrow> (Inl HTTP404, st)
      | Some central_res \<Rightarrow>
          let g = citation_graph st paper_id central_res in
          (case get_embeddings en st [paper_of_node (central_paper central_res)] of
             (Inl e, st1) \<Rightarrow>
               (response g, log_msg (Warning ''Semantic search failed: '') st1)
           | (Inr _, st1) \<Rightarrow>
               (case calculate_similarity en st1 paper_id 5 of
                  (Inl e, st2) \<Rightarrow>
                    (response g, log_msg (Warning ''Semantic search failed: '') st2)
                | (Inr similar_papers, st2) \<Rightarrow>
                    (response (sim_loop st2 paper_id similar_papers g), st2))))"

section \<open>The ingestion worker and the store writer (smart\_ingest.py)\<close>

definition TARGET_CONCEPT_IDS :: "string list" where
  "TARGET_CONCEPT_IDS =
     [''C15151743'', ''C69562835'', ''C190743605'', ''C28225019'', ''C152662350'']"

subsection \<open>Reading a parsed record\<close>

text \<open>
  The operations that the worker applies to the value returned by \<^verbatim>\<open>json.loads\<close>, each
  with the exception Python raises on a value of the wrong shape. A \<open>JObj\<close> holds the items
  of the dict, each key once.
\<close>

fun and_then :: "error + 'a \<Rightarrow> ('a \<Rightarrow> error + 'b) \<Rightarrow> error + 'b" where
  "and_then (Inl e) f = Inl e"
| "and_then (Inr x) f = f x"

text \<open>\<^verbatim>\<open>x[k]\<close> for a string \<open>k\<close>\<close>

fun subscript :: "json \<Rightarrow> string \<Rightarrow> error + json" where
  "subscript (JObj kvs) k = (case map_of kvs k of None \<Rightarrow> Inl KeyError | Some v \<Rightarrow> Inr v)"
| "subscript _ k = Inl TypeError"

text \<open>\<^verbatim>\<open>x[0]\<close>\<close>

fun index0 :: "json \<Rightarrow> error + json" where
  "index0 (JArr []) = Inl IndexError"
| "index0 (JArr (x # xs)) = Inr x"
| "index0 (JStr []) = Inl IndexError"
| "index0 (JStr (c # cs)) = Inr (JStr [c])"
| "index0 (JObj kvs) = Inl KeyError"
| "index0 _ = Inl TypeError"

text \<open>\<^verbatim>\<open>x.get(k, default)\<close>\<close>

fun py_get :: "json \<Rightarrow> string \<Rightarrow> json \<Rightarrow> error + json" where
  "py_get (JObj kvs) k dflt = Inr (case map_of kvs k of None \<Rightarrow> dflt | Some v \<Rightarrow> v)"
| "py_get _ k dflt = Inl AttributeError"

text \<open>\<^verbatim>\<open>for c in x\<close>: the elements of a list, the characters of a string, the keys of
  a dict.\<close>

fun py_iter :: "json \<Rightarrow> error + json list" where
  "py_iter (JArr xs) = Inr xs"
| "py_iter (JStr s) = Inr (map (\<lambda>c. JStr [c]) s)"
| "py_iter (JObj kvs) = Inr (map (\<lambda>kv. JStr (fst kv)) kvs)"
| "py_iter _ = Inl TypeError"

text \<open>\<^verbatim>\<open>x.split('/')[-1]\<close>: the text after the last slash.\<close>

fun split_last :: "json \<Rightarrow> error + string" where
  "split_last (JStr s) = Inr (rev (takeWhile (\<lambda>c. c \<noteq> CHR ''/'') (rev s)))"
| "split_last _ = Inl AttributeError"

definition safe_get_author :: "json \<Rightarrow> error + json" where
  "safe_get_author work =
     (case and_then (and_then (and_then (subscript work ''authorships'') index0)
                       (\<lambda>a. subscript a ''author'')) (\<lambda>a. subscript a ''display_name'') of
        Inl e \<Rightarrow> if e \<in> {KeyError, IndexError, TypeError} then Inr JNull else Inl e
      | Inr v \<Rightarrow> Inr v)"

definition safe_get_venue :: "json \<Rightarrow> error + json" where
  "safe_get_venue work =
     (case and_then (and_then (subscript work ''primary_location'')
                       (\<lambda>l. subscript l ''source'')) (\<lambda>s. subscript s ''display_name'') of
        Inl e \<Rightarrow> if e \<in> {KeyError, TypeError} then Inr JNull else Inl e
      | Inr v \<Rightarrow> Inr v)"

subsection \<open>The worker\<close>

text \<open>
  A local file as \<^verbatim>\<open>gzip.open(..., 'rt')\<close> reads it: the lines that the reader yields
  and, when the stream is damaged or cut short, the exception that the reader raises after
  them. The file system maps the names of the working directory to their files.
\<close>

record gz_file =
  gz_lines :: "string list"
  gz_error :: "error option"

type_synonym fs = "string \<Rightarrow> gz_file option"

text \<open>What \<^verbatim>\<open>s3.download_file\<close> does for a key: it writes the object to the local
  file, or raises, leaving nothing or a partial file at the local name.\<close>

datatype download = Downloaded gz_file | Failed error "gz_file option"

text \<open>
  What lies outside the repository for a worker: the identifier of its process, the
  bucket, the parser (\<open>None\<close> when \<^verbatim>\<open>json.loads\<close> raises) and the serialiser.
\<close>

record worker_env =
  getpid :: nat
  s3_object :: "string \<Rightarrow> download"
  json_loads :: "string \<Rightarrow> json option"
  json_dumps :: "json \<Rightarrow> string"

definition download_file :: "worker_env \<Rightarrow> string \<Rightarrow> string \<Rightarrow> fs \<Rightarrow> (error + unit) \<times> fs" where
  "download_file en s3_key filename files =
     (case s3_object en s3_key of
        Downloaded f \<Rightarrow> (Inr (), files(filename \<mapsto> f))
      | Failed e None \<Rightarrow> (Inl e, files)
      | Failed e (Some f) \<Rightarrow> (Inl e, files(filename \<mapsto> f)))"

text \<open>A tuple of \<^verbatim>\<open>found_works\<close>: the identifier, six values as the record has
  them, and the text that \<^verbatim>\<open>json.dumps\<close> returned.\<close>

record found_work =
  fw_id :: string
  fw_doi :: json
  fw_title :: json
  fw_publication_year :: json
  fw_cited_by_count :: json
  fw_first_author :: json
  fw_venue :: json
  fw_abstract_inverted_index :: string

type_synonym found = "found_work list \<times> (string \<times> string) list"

text \<open>The generator \<^verbatim>\<open>c['id'].split('/')[-1] for c in ...\<close>\<close>

fun concept_ids :: "json list \<Rightarrow> error + string list" where
  "concept_ids [] = Inr []"
| "concept_ids (c # cs) =
     and_then (and_then (subscript c ''id'') split_last)
       (\<lambda>i. and_then (concept_ids cs) (\<lambda>is. Inr (i # is)))"

text \<open>The tuple appended to \<^verbatim>\<open>found_works\<close>.\<close>

definition work_tuple :: "worker_env \<Rightarrow> json \<Rightarrow> string \<Rightarrow> error + found_work" where
  "work_tuple en work wid =
     and_then (py_get work ''doi'' JNull) (\<lambda>d.
     and_then (py_get work ''title'' JNull) (\<lambda>t.
     and_then (py_get work ''publication_year'' JNull) (\<lambda>y.
     and_then (py_get work ''cited_by_count'' JNull) (\<lambda>c.
     and_then (safe_get_author work) (\<lambda>a.
     and_then (safe_get_venue work) (\<lambda>v.
     and_then (py_get work ''abstract_inverted_index'' JNull) (\<lambda>ab.
       Inr \<lparr>fw_id = wid, fw_doi = d, fw_title = t, fw_publication_year = y,
            fw_cited_by_count = c, fw_first_author = a, fw_venue = v,
            fw_abstract_inverted_index = json_dumps en ab\<rparr>)))))))"

text \<open>The loop over \<^verbatim>\<open>referenced_works\<close>: the pairs appended before a reference that
  is not a string stay appended.\<close>

fun citation_loop ::
  "string \<Rightarrow> json list \<Rightarrow> (string \<times> string) list \<Rightarrow> (error + unit) \<times> (string \<times> string) list" where
  "citation_loop wid [] found_citations = (Inr (), found_citations)"
| "citation_loop wid (ref # refs) found_citations =
     (case split_last ref of
        Inl e \<Rightarrow> (Inl e, found_citations)
      | Inr t \<Rightarrow> citation_loop wid refs (found_citations @ [(wid, t)]))"

text \<open>The body of the inner \<^verbatim>\<open>try\<close>, for one line.\<close>

definition line_body :: "worker_env \<Rightarrow> string \<Rightarrow> found \<Rightarrow> (error + unit) \<times> found" where
  "line_body en line acc =
     (case json_loads en line of
        None \<Rightarrow> (Inl JSONDecodeError, acc)
      | Some work \<Rightarrow>
          (case and_then (and_then (py_get work ''concepts'' (JArr [])) py_iter) concept_ids of
             Inl e \<Rightarrow> (Inl e, acc)
           | Inr work_concepts \<Rightarrow>
               if set work_concepts \<inter> set TARGET_CONCEPT_IDS \<noteq> {}
               then
                 (case and_then (subscript work ''id'') split_last of
                    Inl e \<Rightarrow> (Inl e, acc)
                  | Inr wid \<Rightarrow>
                      (case work_tuple en work wid of
                         Inl e \<Rightarrow> (Inl e, acc)
                       | Inr row \<Rightarrow>
                           (case and_then (py_get work ''referenced_works'' (JArr [])) py_iter of
                              Inl e \<Rightarrow> (Inl e, (fst acc @ [row], snd acc))
                            | Inr refs \<Rightarrow>
                                (case citation_loop wid refs (snd acc) of
                                   (r, found_citations) \<Rightarrow>
                                     (r, (fst acc @ [row], found_citations))))))
               else (Inr (), acc)))"

text \<open>One turn of \<^verbatim>\<open>for line in f\<close>: \<^verbatim>\<open>except Exception: continue\<close> drops the
  exception and keeps what the body had appended.\<close>

definition process_line :: "worker_env \<Rightarrow> string \<Rightarrow> found \<Rightarrow> found" where
  "process_line en line acc = snd (line_body en line acc)"

definition local_filename :: "nat \<Rightarrow> string" where
  "local_filename pid = ''temp_chunk_'' @ str_nat pid @ ''.gz''"

text \<open>The body of the outer \<^verbatim>\<open>try\<close>: the download, then the lines of the local file in
  order, then the reader's exception if it has one.\<close>

definition worker_try :: "worker_env \<Rightarrow> string \<Rightarrow> fs \<Rightarrow> (error + unit) \<times> found \<times> fs" where
  "worker_try en s3_key files =
     (case download_file en s3_key (local_filename (getpid en)) files of
        (Inl e, files1) \<Rightarrow> (Inl e, ([], []), files1)
      | (Inr _, files1) \<Rightarrow>
          (case files1 (local_filename (getpid en)) of
             None \<Rightarrow> (Inl FileNotFoundError, ([], []), files1)
           | Some f \<Rightarrow>
               ((case gz_error f of None \<Rightarrow> Inr () | Some e \<Rightarrow> Inl e),
                fold (process_line en) (gz_lines f) ([], []), files1)))"

text \<open>
  \<^verbatim>\<open>process_single_file\<close>: the result pair, the file system after the
  \<^verbatim>\<open>finally\<close> block, and what was printed (the text of the exception left out).
  Creating the client, printing and removing the file are taken not to raise.
\<close>

definition process_single_file :: "worker_env \<Rightarrow> string \<Rightarrow> fs \<Rightarrow> found \<times> fs \<times> string list" where
  "process_single_file en s3_key files =
     (case worker_try en s3_key files of
        (r, acc, files1) \<Rightarrow>
          (acc,
           (if files1 (local_filename (getpid en)) \<noteq> None
            then files1((local_filename (getpid en)) := None) else files1),
           (case r of
              Inl e \<Rightarrow> [''Error in worker '' @ str_nat (getpid en) @ '' on file '' @ s3_key @ '': '']
            | Inr _ \<Rightarrow> [])))"

subsection \<open>The pool and the store writer\<close>

text \<open>
  \<^verbatim>\<open>pool.imap_unordered\<close> yields the results in the order in which the tasks finish.
  The schedule gives, for the task at each position of \<^verbatim>\<open>all_keys\<close>, the process that
  runs it and the time at which it finishes. Tasks that overlap in time run in different
  processes, hence on different local files, so the runs are taken one after the other in
  the order of completion.
\<close>

record schedule =
  task_pid :: "nat \<Rightarrow> nat"
  finished_at :: "nat \<Rightarrow> nat"

fun run_tasks ::
  "worker_env \<Rightarrow> schedule \<Rightarrow> string list \<Rightarrow> nat list \<Rightarrow> fs \<Rightarrow> found list \<times> fs \<times> string list" where
  "run_tasks en sch all_keys [] files = ([], files, [])"
| "run_tasks en sch all_keys (i # order) files =
     (case process_single_file (en\<lparr>getpid := task_pid sch i\<rparr>) (all_keys ! i) files of
        (res, files1, out1) \<Rightarrow>
          (case run_tasks en sch all_keys order files1 of
             (results, files2, out2) \<Rightarrow> (res # results, files2, out1 @ out2)))"

definition imap_unordered ::
  "worker_env \<Rightarrow> schedule \<Rightarrow> string list \<Rightarrow> fs \<Rightarrow> found list \<times> fs \<times> string list" where
  "imap_unordered en sch all_keys files =
     run_tasks en sch all_keys (sort_key (finished_at sch) [0..<length all_keys]) files"

text \<open>
  Binding a tuple to the columns of \<^verbatim>\<open>works\<close>. \<^verbatim>\<open>None\<close> becomes NULL, a string
  goes into a VARCHAR column and an integer of 32 bits into an INTEGER column as they are.
  What the engine makes of any other value (a cast or an exception) is a parameter.
\<close>

record casts =
  cast_varchar :: "json \<Rightarrow> error + string option"
  cast_integer :: "json \<Rightarrow> error + int option"

fun bind_varchar :: "casts \<Rightarrow> json \<Rightarrow> error + string option" where
  "bind_varchar db JNull = Inr None"
| "bind_varchar db (JStr s) = Inr (Some s)"
| "bind_varchar db j = cast_varchar db j"

fun bind_integer :: "casts \<Rightarrow> json \<Rightarrow> error + int option" where
  "bind_integer db JNull = Inr None"
| "bind_integer db (JNum n) =
     (if - 2147483648 \<le> n \<and> n \<le> 2147483647 then Inr (Some n) else cast_integer db (JNum n))"
| "bind_integer db j = cast_integer db j"

definition bind_row :: "casts \<Rightarrow> found_work \<Rightarrow> error + work_row" where
  "bind_row db t =
     and_then (bind_varchar db (fw_doi t)) (\<lambda>d.
     and_then (bind_varchar db (fw_title t)) (\<lambda>ti.
     and_then (bind_integer db (fw_publication_year t)) (\<lambda>y.
     and_then (bind_integer db (fw_cited_by_count t)) (\<lambda>c.
     and_then (bind_varchar db (fw_first_author t)) (\<lambda>a.
     and_then (bind_varchar db (fw_venue t)) (\<lambda>v.
       Inr \<lparr>work_id = fw_id t, doi = d, title = ti, publication_year = y,
            cited_by_count = c, first_author = a, venue = v,
            abstract_inverted_index = Some (fw_abstract_inverted_index t)\<rparr>))))))"

text \<open>\<^verbatim>\<open>INSERT OR IGNORE INTO works VALUES (?, ?, ?, ?, ?, ?, ?, ?)\<close> for one tuple:
  \<^verbatim>\<open>id\<close> is the primary key, and a row whose key is in the table is dropped.\<close>

definition ignore_or_append :: "work_row \<Rightarrow> work_row list \<Rightarrow> work_row list" where
  "ignore_or_append r ws = (if work_id r \<in> work_id ` set ws then ws else ws @ [r])"

definition insert_or_ignore :: "casts \<Rightarrow> found_work \<Rightarrow> work_row list \<Rightarrow> error + work_row list" where
  "insert_or_ignore db t ws =
     (case bind_row db t of
        Inl e \<Rightarrow> Inl e
      | Inr r \<Rightarrow> Inr (ignore_or_append r ws))"

text \<open>\<^verbatim>\<open>executemany\<close>: one execution for each tuple, in order.\<close>

fun executemany :: "casts \<Rightarrow> found_work list \<Rightarrow> work_row list \<Rightarrow> error + work_row list" where
  "executemany db [] ws = Inr ws"
| "executemany db (t # ts) ws =
     (case insert_or_ignore db t ws of
        Inl e \<Rightarrow> Inl e
      | Inr ws1 \<Rightarrow> executemany db ts ws1)"

text \<open>The state of \<^verbatim>\<open>main\<close>: the connection (the tables), the two counters and the
  output.\<close>

record 'v main_state =
  con :: "'v state"
  total_papers :: nat
  files_done :: nat
  printed :: "string list"

text \<open>
  The body of the loop over the results of the pool, \<open>n\<close> being \<^verbatim>\<open>len(all_keys)\<close>.
  There is no handler: an exception of the engine ends \<^verbatim>\<open>main\<close>, and what the store
  holds then is not modelled.
\<close>

definition writer_step ::
  "casts \<Rightarrow> nat \<Rightarrow> found \<Rightarrow> 'v main_state \<Rightarrow> error + 'v main_state" where
  "writer_step db n res ms =
     (let ms1 = ms\<lparr>files_done := files_done ms + 1\<rparr> in
      case (if fst res \<noteq> []
            then
              (case executemany db (fst res) (works (con ms1)) of
                 Inl e \<Rightarrow> Inl e
               | Inr ws \<Rightarrow>
                   (let ms' = ms1\<lparr>con := (con ms1)\<lparr>works := ws\<rparr>,
                                  total_papers := total_papers ms1 + length (fst res)\<rparr>
                    in Inr (ms'\<lparr>printed := printed ms' @
                         [''['' @ str_nat (files_done ms') @ ''/'' @ str_nat n @ ''] Found +'' @
                          str_nat (length (fst res)) @ '' papers. Total: '' @
                          str_nat (total_papers ms')]\<rparr>)))
            else Inr ms1) of
        Inl e \<Rightarrow> Inl e
      | Inr ms2 \<Rightarrow>
          (let ms3 = (if snd res \<noteq> []
                      then ms2\<lparr>con := (con ms2)\<lparr>citations := citations (con ms2) @ snd res\<rparr>\<rparr>
                      else ms2)
           in Inr (if files_done ms3 mod 10 = 0
                   then ms3\<lparr>printed := printed ms3 @
                          [''Processed '' @ str_nat (files_done ms3) @ ''/'' @ str_nat n @
                           '' files...'']\<rparr>
                   else ms3)))"

fun main_loop ::
  "casts \<Rightarrow> nat \<Rightarrow> found list \<Rightarrow> 'v main_state \<Rightarrow> error + 'v main_state" where
  "main_loop db n [] ms = Inr ms"
| "main_loop db n (res # results) ms =
     (case writer_step db n res ms of
        Inl e \<Rightarrow> Inl e
      | Inr ms1 \<Rightarrow> main_loop db n results ms1)"

text \<open>Steps 3 and 4 of \<^verbatim>\<open>main\<close>, from the listed keys and the opened store.\<close>

definition main ::
  "worker_env \<Rightarrow> schedule \<Rightarrow> casts \<Rightarrow> string list \<Rightarrow> fs \<Rightarrow> 'v state
     \<Rightarrow> (error + 'v main_state) \<times> fs" where
  "main en sch db all_keys files store =
     (case imap_unordered en sch all_keys files of
        (results, files1, out) \<Rightarrow>
          (main_loop db (length all_keys) results
             \<lparr>con = store, total_papers = 0, files_done = 0, printed = []\<rparr>, files1))"







section \<open>Example data\<close>

text \<open>
  Concrete data for the closed instances below. The vectors used are unit vectors along
  an axis, for which the cosine similarity is the dot product. The example engine rejects
  a cache query that is not a plain list of literals.
\<close>

definition dot :: "int list \<Rightarrow> int list \<Rightarrow> int" where
  "dot a b = sum_list (map2 (*) a b)"

definition demo_env :: "(int list, int) env" where
  "demo_env = \<lparr>device = ''cpu'', load_ok = True,
     encoder = (\<lambda>texts. Some (map (\<lambda>t. [0, 1]) texts)),
     array_cosine_similarity = dot,
     execute_other = (\<lambda>txt db. (Inl SqlError, db))\<rparr>"

definition demo_row :: "string \<Rightarrow> work_row" where
  "demo_row i = \<lparr>work_id = i, doi = None, title = Some ''t'', publication_year = Some 2020,
     cited_by_count = Some 0, first_author = None, venue = None,
     abstract_inverted_index = None\<rparr>"

definition demo_state :: "int list state" where
  "demo_state = \<lparr>works = [demo_row ''D1'', demo_row ''D2'', demo_row ''D3'', demo_row ''D4'',
              demo_row ''D5''],
     citations = [(''D1'', ''D2''), (''D1'', ''D3''), (''D4'', ''D1'')],
     vector_cache = [(''D1'', [1, 0]), (''D2'', [1, 0]), (''X9'', [0, 1]), (''D5'', [1, 0])],
     is_loaded = True, encoder_calls = [], logged = []\<rparr>"

definition demo_paper :: "string \<Rightarrow> paper" where
  "demo_paper i = \<lparr>p_id = i, p_title = Some (JStr ''t''), p_abstract = None\<rparr>"

text \<open>An identifier that contains the characters \<^verbatim>\<open>','\<close>.\<close>

definition quote_paper :: paper where
  "quote_paper = \<lparr>p_id = ''a'' @ [sq] @ '','' @ [sq] @ ''b'', p_title = Some (JStr ''t''), p_abstract = None\<rparr>"

text \<open>The response for the focal document \<^verbatim>\<open>D1\<close>.\<close>

definition demo_Paper :: "string \<Rightarrow> Paper" where
  "demo_Paper i = \<lparr>Paper_id = i, Paper_title = ''t'', Paper_year = Some 2020,
     Paper_first_author = None, Paper_venue = None, Paper_cited_by_count = Some 0\<rparr>"

definition demo_graph_D1 :: "Paper list \<times> edge list" where
  "demo_graph_D1 =
     ([demo_Paper ''D1'', demo_Paper ''D2'', demo_Paper ''D3'', demo_Paper ''D4'',
       demo_Paper ''D5''],
      [\<lparr>source = ''D1'', target = ''D2'', etype = None\<rparr>,
       \<lparr>source = ''D1'', target = ''D3'', etype = None\<rparr>,
       \<lparr>source = ''D4'', target = ''D1'', etype = None\<rparr>,
       \<lparr>source = ''D1'', target = ''D5'', etype = Some ''similarity''\<rparr>])"

text \<open>An environment whose forward pass raises, and one whose forward pass raises on the
  batch \<^verbatim>\<open>['t ']\<close> only.\<close>

definition no_encoder_env :: "(int list, int) env" where
  "no_encoder_env = demo_env\<lparr>encoder := \<lambda>texts. None\<rparr>"

definition batch_env :: "(int list, int) env" where
  "batch_env = demo_env\<lparr>encoder := \<lambda>texts. if texts = [''t ''] then None
                                          else Some (map (\<lambda>t. [0, 1]) texts)\<rparr>"








section \<open>Properties of the embedding cache and the similarity query\<close>

lemma sql_in_list_body:
  "sq \<notin> set s \<Longrightarrow> sql_in_list InLit cur seen (s @ rest) = sql_in_list InLit (rev s @ cur) seen rest"
  by (induction s arbitrary: cur) auto

lemma ids_str_Cons2: "ids_str (x # y # ys) = sq # x @ sq # CHR '','' # ids_str (y # ys)"
  by (simp add: ids_str_def)

lemma ids_str_single: "ids_str [x] = sq # x @ [sq]"
  by (simp add: ids_str_def)

lemma comma_not_sq: "CHR '','' \<noteq> sq"
  by (simp add: sq_def)

lemma sql_in_list_ids:
  "\<forall>x\<in>set (x # xs). sq \<notin> set x \<Longrightarrow>
   sql_in_list Expect cur seen (ids_str (x # xs)) = Some (rev seen @ x # xs)"
proof (induction xs arbitrary: x cur seen)
  case Nil
  then show ?case by (simp add: ids_str_single sql_in_list_body)
next
  case (Cons y ys)
  have "sql_in_list Expect cur seen (ids_str (x # y # ys))
      = sql_in_list Expect [] (x # seen) (ids_str (y # ys))"
    using Cons.prems by (simp add: ids_str_Cons2 sql_in_list_body comma_not_sq)
  also have "\<dots> = Some (rev (x # seen) @ y # ys)"
    using Cons.prems by (intro Cons.IH) simp
  finally show ?case by simp
qed

lemma ids_str_empty: "ids_str xs = [] \<longleftrightarrow> xs = []"
  by (cases xs rule: join_comma.cases) (simp_all add: ids_str_def)

lemma select_cached_safe:
  assumes "xs \<noteq> []" "\<forall>x\<in>set xs. sq \<notin> set x"
  shows "select_cached en st (ids_str xs) =
           (Inr (filter (\<lambda>row. fst row \<in> set xs) (vector_cache st)), st)"
proof -
  obtain y ys where "xs = y # ys" using assms(1) by (cases xs) auto
  then show ?thesis using assms(2) sql_in_list_ids[of y ys "[]" "[]"]
    by (simp add: select_cached_def)
qed

lemma select_cached_frame:
  "is_loaded (snd (select_cached en st txt)) = is_loaded st"
  "encoder_calls (snd (select_cached en st txt)) = encoder_calls st"
  "logged (snd (select_cached en st txt)) = logged st"
  by (simp_all add: select_cached_def split: option.splits prod.splits)

lemma fold_update_keys:
  "fst ` set (fold (\<lambda>row d. AList.update (fst row) (snd row) d) rows d0) = fst ` set rows \<union> fst ` set d0"
  by (induction rows arbitrary: d0) (auto simp: dom_update)

lemma dict_of_rows_keys: "fst ` set (dict_of_rows rows) = fst ` set rows"
  by (simp add: dict_of_rows_def fold_update_keys)

lemma fold_update_distinct:
  "distinct (map fst rows) \<Longrightarrow> fst ` set rows \<inter> fst ` set d0 = {} \<Longrightarrow>
   fold (\<lambda>row d. AList.update (fst row) (snd row) d) rows d0 = d0 @ rows"
proof (induction rows arbitrary: d0)
  case Nil then show ?case by simp
next
  case (Cons r rows)
  have "AList.update (fst r) (snd r) d0 = d0 @ [r]"
    using Cons.prems(2) by (induction d0) auto
  moreover have "fst ` set rows \<inter> fst ` set (d0 @ [r]) = {}"
    using Cons.prems by auto
  ultimately show ?case using Cons.IH[of "d0 @ [r]"] Cons.prems(1) by simp
qed

lemma dict_of_rows_distinct: "distinct (map fst rows) \<Longrightarrow> dict_of_rows rows = rows"
  using fold_update_distinct[of rows "[]"] by (simp add: dict_of_rows_def)

lemma load_model_cache: "vector_cache (snd (load_model en st)) = vector_cache st"
  by (simp add: load_model_def log_msg_def Let_def)

lemma load_model_calls: "encoder_calls (snd (load_model en st)) = encoder_calls st"
  by (simp add: load_model_def log_msg_def Let_def)

lemma load_model_fails: "\<not> is_loaded st \<Longrightarrow> \<not> load_ok en \<Longrightarrow> fst (load_model en st) = Inl LoadFailure"
  by (simp add: load_model_def Let_def)

lemma load_model_loaded: "is_loaded st \<Longrightarrow> load_model en st = (Inr (), st)"
  by (simp add: load_model_def)

lemma load_model_Inr: "load_model en st = (Inr u, st1) \<Longrightarrow> is_loaded st1"
  by (auto simp: load_model_def Let_def log_msg_def split: if_splits)

lemma str_nat_1: "str_nat (Suc 0) = ''1''"
  by code_simp

lemma store_new_calls: "encoder_calls (snd (store_new ps embs m st)) = encoder_calls st"
  by (induction ps embs m st rule: store_new.induct) auto

lemma get_embeddings_load_failure:
  assumes "\<not> is_loaded st" "\<not> load_ok en"
  shows "fst (get_embeddings en st papers) = Inl LoadFailure"
proof -
  obtain r st1 where l: "load_model en st = (r, st1)" by (cases "load_model en st")
  with assms load_model_fails[of st en] have "r = Inl LoadFailure" by simp
  then show ?thesis using l by (simp add: get_embeddings_def)
qed

text \<open>The encoder is invoked at most once in a call, and a call in which it fails on
  the batch it is given raises that failure.\<close>

lemma get_embeddings_calls:
  "encoder_calls (snd (get_embeddings en st papers)) = encoder_calls st \<or>
   (\<exists>texts. encoder_calls (snd (get_embeddings en st papers)) = encoder_calls st @ [texts] \<and>
      (encoder en texts = None \<longrightarrow> fst (get_embeddings en st papers) = Inl EncoderFailure))"
proof -
  obtain r st1 where l: "load_model en st = (r, st1)" by (cases "load_model en st")
  have c1: "encoder_calls st1 = encoder_calls st" using load_model_calls[of en st] l by simp
  show ?thesis
  proof (cases r)
    case (Inl e)
    then show ?thesis using l c1 by (simp add: get_embeddings_def)
  next
    case (Inr u)
    note r = this
    show ?thesis
    proof (cases "ids_str (map p_id papers) = []")
      case True
      then show ?thesis using l r c1 by (simp add: get_embeddings_def)
    next
      case ne: False
      obtain q st2 where s: "select_cached en st1 (ids_str (map p_id papers)) = (q, st2)"
        by (cases "select_cached en st1 (ids_str (map p_id papers))")
      have c2: "encoder_calls st2 = encoder_calls st"
        using select_cached_frame(2)[of en st1 "ids_str (map p_id papers)"] s c1 by simp
      show ?thesis
      proof (cases q)
        case (Inl e)
        then show ?thesis using l r ne s c2 by (simp add: get_embeddings_def)
      next
        case (Inr rows)
        note q = this
        let ?missing = "filter (\<lambda>p. p_id p \<notin> fst ` set (dict_of_rows rows)) papers"
        show ?thesis
        proof (cases "?missing = []")
          case True
          then show ?thesis using l r ne s q c2 by (simp add: get_embeddings_def)
        next
          case m: False
          show ?thesis
          proof (cases "paper_texts ?missing")
            case (Inl e)
            then show ?thesis using l r ne s q m c2
              by (simp add: get_embeddings_def Let_def log_msg_def)
          next
            case (Inr texts)
            note t = this
            show ?thesis
            proof (cases "encoder en texts")
              case None
              then have "encoder_calls (snd (get_embeddings en st papers)) = encoder_calls st @ [texts]"
                and "fst (get_embeddings en st papers) = Inl EncoderFailure"
                using l r ne s q m t c2 by (simp_all add: get_embeddings_def Let_def log_msg_def)
              then show ?thesis by blast
            next
              case (Some embs)
              then have "encoder_calls (snd (get_embeddings en st papers)) = encoder_calls st @ [texts]"
                using l r ne s q m t c2
                by (simp add: get_embeddings_def Let_def log_msg_def store_new_calls)
              then show ?thesis using Some by auto
            qed
          qed
        qed
      qed
    qed
  qed
qed

text \<open>For identifiers without a quote, the batch is the texts of the papers that have
  no row in the cache.\<close>

lemma get_embeddings_batch:
  assumes ld: "is_loaded st \<or> load_ok en"
    and nq: "\<forall>p\<in>set papers. sq \<notin> set (p_id p)"
    and mi: "filter (\<lambda>p. p_id p \<notin> fst ` set (vector_cache st)) papers = missing"
    and ne: "missing \<noteq> []"
    and tx: "paper_texts missing = Inr texts"
  shows "encoder_calls (snd (get_embeddings en st papers)) = encoder_calls st @ [texts]"
proof -
  from ld have "\<exists>st1. load_model en st = (Inr (), st1)"
    by (cases "is_loaded st") (simp_all add: load_model_def Let_def)
  then obtain st1 where l: "load_model en st = (Inr (), st1)" by blast
  define r :: "error + unit" where "r = Inr ()"
  have r: "r = Inr ()" by (simp add: r_def)
  have c1: "encoder_calls st1 = encoder_calls st" using load_model_calls[of en st] l by simp
  have v1: "vector_cache st1 = vector_cache st" using load_model_cache[of en st] l by simp
  have pne: "papers \<noteq> []" using mi ne by auto
  then have ine: "ids_str (map p_id papers) \<noteq> []" by (simp add: ids_str_empty)
  let ?rows = "filter (\<lambda>row. fst row \<in> set (map p_id papers)) (vector_cache st1)"
  have s: "select_cached en st1 (ids_str (map p_id papers)) = (Inr ?rows, st1)"
    using select_cached_safe[of "map p_id papers" en st1] pne nq by simp
  have keys: "fst ` set (dict_of_rows ?rows) = p_id ` set papers \<inter> fst ` set (vector_cache st)"
    unfolding dict_of_rows_keys v1 by force
  have "filter (\<lambda>p. p_id p \<notin> fst ` set (dict_of_rows ?rows)) papers =
        filter (\<lambda>p. p_id p \<notin> fst ` set (vector_cache st)) papers"
    unfolding keys by (rule filter_cong) auto
  then have m: "filter (\<lambda>p. p_id p \<notin> fst ` set (dict_of_rows ?rows)) papers = missing"
    using mi by simp
  show ?thesis
  proof (cases "encoder en texts")
    case None
    then show ?thesis using l r ine s m ne tx c1
      by (simp add: get_embeddings_def Let_def log_msg_def)
  next
    case (Some embs)
    then show ?thesis using l r ine s m ne tx c1
      by (simp add: get_embeddings_def Let_def log_msg_def store_new_calls)
  qed
qed

text \<open>
  C1, as the code has it. When the model cannot be loaded, \<open>get_embeddings\<close> raises the
  load failure. When the forward pass is invoked in the call (on the batch \<open>texts\<close>) and
  fails on that batch, \<open>get_embeddings\<close> raises that failure. In both cases the whole
  call raises: no mapping is returned, not even for the papers that are cached. For
  identifiers without a quote character the batch is the texts of the papers of the call
  that have no row in the vector cache.
\<close>

theorem get_embeddings_encoder_failure:
  "(\<not> is_loaded st \<and> \<not> load_ok en \<longrightarrow>
      fst (get_embeddings en st papers) = Inl LoadFailure) \<and>
   (encoder_calls (snd (get_embeddings en st papers)) = encoder_calls st @ [texts] \<and>
    encoder en texts = None \<longrightarrow>
      fst (get_embeddings en st papers) = Inl EncoderFailure) \<and>
   ((is_loaded st \<or> load_ok en) \<and> (\<forall>p\<in>set papers. sq \<notin> set (p_id p)) \<and>
    filter (\<lambda>p. p_id p \<notin> fst ` set (vector_cache st)) papers = missing \<and> missing \<noteq> [] \<and>
    paper_texts missing = Inr texts \<and> encoder en texts = None \<longrightarrow>
      encoder_calls (snd (get_embeddings en st papers)) = encoder_calls st @ [texts] \<and>
      fst (get_embeddings en st papers) = Inl EncoderFailure)"
proof (intro conjI impI)
  assume "\<not> is_loaded st \<and> \<not> load_ok en"
  then show "fst (get_embeddings en st papers) = Inl LoadFailure"
    by (simp add: get_embeddings_load_failure)
next
  assume a: "encoder_calls (snd (get_embeddings en st papers)) = encoder_calls st @ [texts] \<and>
    encoder en texts = None"
  from get_embeddings_calls[of en st papers] a
  show "fst (get_embeddings en st papers) = Inl EncoderFailure" by auto
next
  assume a: "(is_loaded st \<or> load_ok en) \<and> (\<forall>p\<in>set papers. sq \<notin> set (p_id p)) \<and>
    filter (\<lambda>p. p_id p \<notin> fst ` set (vector_cache st)) papers = missing \<and> missing \<noteq> [] \<and>
    paper_texts missing = Inr texts \<and> encoder en texts = None"
  then show c: "encoder_calls (snd (get_embeddings en st papers)) = encoder_calls st @ [texts]"
    by (intro get_embeddings_batch[of st en papers missing texts]) simp_all
  from get_embeddings_calls[of en st papers] c a
  show "fst (get_embeddings en st papers) = Inl EncoderFailure" by auto
qed

lemma demo_batch_call:
  "get_embeddings batch_env demo_state [demo_paper ''D1'', demo_paper ''D6''] =
     (Inl EncoderFailure,
      demo_state\<lparr>encoder_calls := [[''t '']],
                 logged := [Info ''Generating embeddings for 1 papers...'']\<rparr>)"
  by (simp add: get_embeddings_def load_model_def batch_env_def demo_env_def demo_state_def
      demo_paper_def ids_str_def select_cached_def sq_def dict_of_rows_def paper_text_def
      log_msg_def Let_def str_nat_1)

text \<open>
  C1 on the example data: \<^verbatim>\<open>D1\<close> is cached and \<^verbatim>\<open>D6\<close> is not, and the encoder
  fails on the batch of this call only; and a call for the cached \<^verbatim>\<open>D1\<close> alone when the
  model cannot be loaded.
\<close>

theorem get_embeddings_encoder_failure_witness:
  "is_loaded demo_state \<and>
   filter (\<lambda>p. p_id p \<notin> fst ` set (vector_cache demo_state))
     [demo_paper ''D1'', demo_paper ''D6''] = [demo_paper ''D6''] \<and>
   paper_texts [demo_paper ''D6''] = Inr [''t ''] \<and>
   encoder batch_env [''t ''] = None \<and>
   encoder batch_env [''t '', ''t ''] = Some [[0, 1], [0, 1]] \<and>
   encoder_calls (snd (get_embeddings batch_env demo_state
      [demo_paper ''D1'', demo_paper ''D6''])) = encoder_calls demo_state @ [[''t '']] \<and>
   fst (get_embeddings batch_env demo_state [demo_paper ''D1'', demo_paper ''D6'']) =
     Inl EncoderFailure \<and>
   fst (get_embeddings (demo_env\<lparr>load_ok := False\<rparr>) (demo_state\<lparr>is_loaded := False\<rparr>)
     [demo_paper ''D1'']) = Inl LoadFailure"
proof -
  have h1: "is_loaded demo_state" by (simp add: demo_state_def)
  have h2: "\<forall>p\<in>set [demo_paper ''D1'', demo_paper ''D6'']. sq \<notin> set (p_id p)"
    by (simp add: demo_paper_def sq_def)
  have h3: "filter (\<lambda>p. p_id p \<notin> fst ` set (vector_cache demo_state))
     [demo_paper ''D1'', demo_paper ''D6''] = [demo_paper ''D6'']"
    by (simp add: demo_state_def demo_paper_def)
  have h4: "paper_texts [demo_paper ''D6''] = Inr [''t '']"
    by (simp add: paper_text_def demo_paper_def)
  have h5: "encoder batch_env [''t ''] = None" by (simp add: batch_env_def)
  have h6: "encoder batch_env [''t '', ''t ''] = Some [[0, 1], [0, 1]]"
    by (simp add: batch_env_def)
  have h7: "\<not> is_loaded (demo_state\<lparr>is_loaded := False\<rparr>) \<and> \<not> load_ok (demo_env\<lparr>load_ok := False\<rparr>)"
    by simp
  note t1 = get_embeddings_encoder_failure[of demo_state batch_env
      "[demo_paper ''D1'', demo_paper ''D6'']" "[''t '']" "[demo_paper ''D6'']"]
  note t2 = get_embeddings_encoder_failure[of "demo_state\<lparr>is_loaded := False\<rparr>"
      "demo_env\<lparr>load_ok := False\<rparr>" "[demo_paper ''D1'']" "[]" "[]"]
  from t1 h1 h2 h3 h4 h5 have
    a: "encoder_calls (snd (get_embeddings batch_env demo_state
          [demo_paper ''D1'', demo_paper ''D6''])) = encoder_calls demo_state @ [[''t '']] \<and>
        fst (get_embeddings batch_env demo_state [demo_paper ''D1'', demo_paper ''D6'']) =
          Inl EncoderFailure"
    by blast
  from t2 h7 have
    b: "fst (get_embeddings (demo_env\<lparr>load_ok := False\<rparr>) (demo_state\<lparr>is_loaded := False\<rparr>)
          [demo_paper ''D1'']) = Inl LoadFailure"
    by blast
  from h1 h3 h4 h5 h6 a b show ?thesis by (intro conjI) blast+
qed

text \<open>
  C1 as stated fails: \<^verbatim>\<open>D1\<close> is cached, \<^verbatim>\<open>D6\<close> is not, the encoder raises, and the
  call returns the encoder's failure instead of the entry of \<^verbatim>\<open>D1\<close>.
\<close>

theorem get_embeddings_partial_counterexample:
  "map_of (vector_cache demo_state) ''D1'' = Some [1, 0] \<and>
   map_of (vector_cache demo_state) ''D6'' = None \<and>
   encoder (demo_env\<lparr>encoder := \<lambda>texts. None\<rparr>) [''t ''] = None \<and>
   fst (get_embeddings (demo_env\<lparr>encoder := \<lambda>texts. None\<rparr>) demo_state
          [demo_paper ''D1'', demo_paper ''D6'']) = Inl EncoderFailure"
  by (simp add: get_embeddings_def load_model_def demo_env_def demo_state_def demo_paper_def
      ids_str_def select_cached_def sq_def dict_of_rows_def paper_text_def log_msg_def Let_def)




lemma ranked_distinct:
  assumes "distinct (map fst rows)"
  shows "distinct (map fst (ranked en sv seed limit rows))"
proof -
  let ?xs = "map (\<lambda>row. (fst row, array_cosine_similarity en (snd row) sv))
             (filter (\<lambda>row. fst row \<noteq> seed) rows)"
  have "map fst ?xs = filter (\<lambda>k. k \<noteq> seed) (map fst rows)"
    by (induction rows) auto
  then have d: "distinct (map fst ?xs)" using assms by simp
  have m: "mset (map fst (sort_key snd ?xs)) = mset (map fst ?xs)"
    by (simp only: mset_map mset_sort)
  have "distinct (map fst (sort_key snd ?xs))"
    using d by (simp only: mset_eq_imp_distinct_iff[OF m])
  then have "distinct (rev (map fst (sort_key snd ?xs)))"
    by (simp only: distinct_rev)
  then have "distinct (take limit (rev (map fst (sort_key snd ?xs))))"
    by (rule distinct_take)
  then show ?thesis by (simp only: ranked_def take_map rev_map)
qed




text \<open>
  C7: for a seed with no row in the vector cache, \<open>calculate_similarity\<close> returns the
  empty list, not an error, and the state changes by one warning in the log only: the
  cache, the model flag and the list of encoder invocations are as before, whatever the
  encoder and the engine would do.
\<close>

theorem calculate_similarity_uncached:
  assumes "map_of (vector_cache st) seed_id = None"
  shows "calculate_similarity en st seed_id limit =
           (Inr [], st\<lparr>logged := logged st @
              [Warning (''No embedding found for seed '' @ seed_id @ ''. Cannot calculate similarity.'')]\<rparr>)"
  using assms by (simp add: calculate_similarity_def log_msg_def)

lemma demo_sim: "calculate_similarity demo_env demo_state ''D1'' 5 =
     (Inr [(''D5'', 1), (''D2'', 1), (''X9'', 0)], demo_state)"
  by (simp add: calculate_similarity_def ranked_def demo_state_def demo_env_def dot_def)



text \<open>C7 on the example data: \<^verbatim>\<open>D4\<close> has no cached vector; the model cannot be
  loaded and the encoder raises, and neither is touched.\<close>

theorem calculate_similarity_uncached_witness:
  "map_of (vector_cache demo_state) ''D4'' = None \<and>
   calculate_similarity (demo_env\<lparr>load_ok := False, encoder := \<lambda>texts. None\<rparr>)
       demo_state ''D4'' 20 =
     (Inr [], demo_state\<lparr>logged := logged demo_state @
        [Warning (''No embedding found for seed '' @ ''D4'' @ ''. Cannot calculate similarity.'')]\<rparr>)"
proof -
  have h: "map_of (vector_cache demo_state) ''D4'' = None" by (simp add: demo_state_def)
  show ?thesis by (intro conjI h calculate_similarity_uncached[OF h])
qed

subsection \<open>Cache hits\<close>

lemma filter_key_distinct:
  "distinct (map fst xs) \<Longrightarrow> map_of xs k = Some v \<Longrightarrow> filter (\<lambda>row. fst row = k) xs = [(k, v)]"
proof (induction xs)
  case Nil then show ?case by simp
next
  case (Cons x xs)
  show ?case
  proof (cases "fst x = k")
    case True
    then have "x = (k, v)" using Cons.prems(2) by (cases x) simp
    moreover have "filter (\<lambda>row. fst row = k) xs = []"
      using Cons.prems(1) True by (force simp: filter_empty_conv image_iff)
    ultimately show ?thesis by simp
  next
    case False
    then show ?thesis using Cons by (cases x) auto
  qed
qed

lemma get_embeddings_cache_hit:
  assumes "sq \<notin> set (p_id d)" and "is_loaded st"
    and "distinct (map fst (vector_cache st))"
    and "map_of (vector_cache st) (p_id d) = Some v"
  shows "get_embeddings en st [d] = (Inr [(p_id d, v)], st)"
proof -
  have sel: "select_cached en st (ids_str [p_id d]) = (Inr [(p_id d, v)], st)"
    using select_cached_safe[of "[p_id d]" en st] assms(1) filter_key_distinct[OF assms(3,4)]
    by simp
  have ne: "ids_str [p_id d] \<noteq> []" by (simp add: ids_str_empty)
  have d: "dict_of_rows [(p_id d, v)] = [(p_id d, v)]" by (simp add: dict_of_rows_def)
  show ?thesis
    using load_model_loaded[OF assms(2), of en] sel ne d
    by (simp add: get_embeddings_def)
qed

lemma store_new_is_loaded: "is_loaded (snd (store_new ps embs m st)) = is_loaded st"
  by (induction ps embs m st rule: store_new.induct) auto

lemma store_new_distinct:
  "distinct (map fst (vector_cache st)) \<Longrightarrow>
   distinct (map fst (vector_cache (snd (store_new ps embs m st))))"
  by (induction ps embs m st rule: store_new.induct) (auto simp: distinct_update)

lemma store_new_keeps:
  "k \<in> fst ` set (vector_cache st) \<Longrightarrow>
   k \<in> fst ` set (vector_cache (snd (store_new ps embs m st)))"
  by (induction ps embs m st rule: store_new.induct) (auto simp: dom_update)

lemma store_new_stores:
  "fst (store_new ps embs m st) = Inr m' \<Longrightarrow> p \<in> set ps \<Longrightarrow>
   p_id p \<in> fst ` set (vector_cache (snd (store_new ps embs m st)))"
proof (induction ps embs m st rule: store_new.induct)
  case (3 q ps emb embs embeddings st)
  show ?case
  proof (cases "p = q")
    case True
    have "p_id q \<in> fst ` set (vector_cache
            (st\<lparr>vector_cache := AList.update (p_id q) emb (vector_cache st)\<rparr>))"
      by (simp add: dom_update)
    then show ?thesis using True by (simp add: store_new_keeps)
  next
    case False
    then show ?thesis using 3 by simp
  qed
qed simp_all

lemma get_embeddings_first_call:
  assumes "get_embeddings en st [d] = (Inr m, st1)"
    and "sq \<notin> set (p_id d)" and "distinct (map fst (vector_cache st))"
  shows "is_loaded st1 \<and> distinct (map fst (vector_cache st1)) \<and>
         (\<exists>v. map_of (vector_cache st1) (p_id d) = Some v)"
proof -
  obtain r st0 where l: "load_model en st = (r, st0)" by (cases "load_model en st")
  have c0: "vector_cache st0 = vector_cache st" using load_model_cache[of en st] l by simp
  have ne: "ids_str [p_id d] \<noteq> []" by (simp add: ids_str_empty)
  from assms(1) l obtain u where r: "r = Inr u" by (cases r) (auto simp: get_embeddings_def)
  then have ld: "is_loaded st0" using l load_model_Inr by blast
  have sel: "select_cached en st0 (ids_str [p_id d]) =
      (Inr (filter (\<lambda>row. fst row = p_id d) (vector_cache st0)), st0)"
    using select_cached_safe[of "[p_id d]" en st0] assms(2) by simp
  let ?rows = "filter (\<lambda>row. fst row = p_id d) (vector_cache st0)"
  have key: "p_id d \<in> fst ` set (vector_cache st1)"
  proof (cases "p_id d \<in> fst ` set (vector_cache st0)")
    case True
    then have "p_id d \<in> fst ` set (dict_of_rows ?rows)"
      by (auto simp: dict_of_rows_keys)
    then have "st1 = st0" using assms(1) l r sel ne
      by (simp add: get_embeddings_def Let_def)
    then show ?thesis using True by simp
  next
    case False
    have "set ?rows \<subseteq> set (vector_cache st0)" by simp
    then have "fst ` set (dict_of_rows ?rows) \<subseteq> fst ` set (vector_cache st0)"
      unfolding dict_of_rows_keys by (rule image_mono)
    with False have nk: "p_id d \<notin> fst ` set (dict_of_rows ?rows)"
      by blast
    obtain texts where t: "paper_texts [d] = Inr texts"
      using assms(1) l r sel ne nk
      by (cases "paper_texts [d]") (auto simp: get_embeddings_def Let_def)
    obtain embs where e: "encoder en texts = Some embs"
      using assms(1) l r sel ne nk t
      by (cases "encoder en texts") (auto simp: get_embeddings_def Let_def)
    obtain st3 where s: "store_new [d] embs (dict_of_rows ?rows) st3 = (Inr m, st1)"
      using assms(1) l r sel ne nk t e
      by (auto simp: get_embeddings_def Let_def)
    show ?thesis using store_new_stores[of "[d]" embs "dict_of_rows ?rows" st3 m d] s by simp
  qed
  have ld1: "is_loaded st1 \<and> distinct (map fst (vector_cache st1))"
  proof (cases "p_id d \<in> fst ` set (dict_of_rows ?rows)")
    case True
    then have "st1 = st0" using assms(1) l r sel ne
      by (simp add: get_embeddings_def Let_def)
    then show ?thesis using ld c0 assms(3) by simp
  next
    case nk: False
    obtain texts where t: "paper_texts [d] = Inr texts"
      using assms(1) l r sel ne nk
      by (cases "paper_texts [d]") (auto simp: get_embeddings_def Let_def)
    obtain embs where e: "encoder en texts = Some embs"
      using assms(1) l r sel ne nk t
      by (cases "encoder en texts") (auto simp: get_embeddings_def Let_def)
    obtain st3 where s: "store_new [d] embs (dict_of_rows ?rows) st3 = (Inr m, st1)"
      "is_loaded st3" "vector_cache st3 = vector_cache st0"
      using assms(1) l r sel ne nk t e ld
      by (auto simp: get_embeddings_def Let_def log_msg_def)
    show ?thesis
      using store_new_is_loaded[of "[d]" embs "dict_of_rows ?rows" st3]
        store_new_distinct[of st3 "[d]" embs "dict_of_rows ?rows"] s c0 assms(3)
      by simp
  qed
  from key obtain v where "map_of (vector_cache st1) (p_id d) = Some v"
    by (metis domD dom_map_of_conv_image_fst)
  with ld1 show ?thesis by blast
qed

lemma get_embeddings_second_call:
  assumes "get_embeddings en st [d] = (Inr m, st1)"
    and "sq \<notin> set (p_id d)" and "distinct (map fst (vector_cache st))"
  shows "\<exists>v. map_of (vector_cache st1) (p_id d) = Some v \<and>
             get_embeddings en' st1 [d] = (Inr [(p_id d, v)], st1)"
proof -
  from get_embeddings_first_call[OF assms] obtain v where
    "is_loaded st1" "distinct (map fst (vector_cache st1))" "map_of (vector_cache st1) (p_id d) = Some v"
    by blast
  then show ?thesis using get_embeddings_cache_hit[OF assms(2), of st1 v en'] by simp
qed

lemma demo_first_call:
  "get_embeddings demo_env demo_state [quote_paper] =
     (Inr [(p_id quote_paper, [0, 1])],
      demo_state\<lparr>vector_cache := vector_cache demo_state @ [(p_id quote_paper, [0, 1])],
                 encoder_calls := [[''t '']],
                 logged := [Info ''Generating embeddings for 1 papers...'']\<rparr>)"
  by (simp add: get_embeddings_def load_model_def demo_env_def demo_state_def quote_paper_def
      ids_str_def select_cached_def sq_def dict_of_rows_def paper_text_def log_msg_def Let_def
      str_nat_1)

lemma demo_second_call:
  "get_embeddings demo_env
     (demo_state\<lparr>vector_cache := vector_cache demo_state @ [(p_id quote_paper, [0, 1])],
                 encoder_calls := [[''t '']],
                 logged := [Info ''Generating embeddings for 1 papers...'']\<rparr>) [quote_paper] =
     (Inr [(p_id quote_paper, [0, 1])],
      demo_state\<lparr>vector_cache := vector_cache demo_state @ [(p_id quote_paper, [0, 1])],
                 encoder_calls := [[''t ''], [''t '']],
                 logged := [Info ''Generating embeddings for 1 papers...'',
                            Info ''Generating embeddings for 1 papers...'']\<rparr>)"
  by (simp add: get_embeddings_def load_model_def demo_env_def demo_state_def quote_paper_def
      ids_str_def select_cached_def sq_def dict_of_rows_def paper_text_def log_msg_def Let_def
      str_nat_1)

lemma demo_second_call_fails:
  "fst (get_embeddings no_encoder_env
     (demo_state\<lparr>vector_cache := vector_cache demo_state @ [(p_id quote_paper, [0, 1])],
                 encoder_calls := [[''t '']],
                 logged := [Info ''Generating embeddings for 1 papers...'']\<rparr>) [quote_paper]) =
     Inl EncoderFailure"
  by (simp add: get_embeddings_def load_model_def no_encoder_env_def demo_env_def demo_state_def
      quote_paper_def
      ids_str_def select_cached_def sq_def dict_of_rows_def paper_text_def log_msg_def Let_def
      str_nat_1)

text \<open>
  C8 at the identifier \<^verbatim>\<open>a','b\<close>: the first call computes the vector and stores it
  under the identifier; the second call asks the cache for the identifiers \<^verbatim>\<open>a\<close> and
  \<^verbatim>\<open>b\<close>, finds nothing and invokes the encoder again; when the encoder then fails, the
  second call raises although the vector is in the cache.
\<close>

theorem get_embeddings_quote_recomputed:
  "fst (get_embeddings demo_env demo_state [quote_paper]) = Inr [(p_id quote_paper, [0, 1])] \<and>
   map_of (vector_cache (snd (get_embeddings demo_env demo_state [quote_paper]))) (p_id quote_paper)
     = Some [0, 1] \<and>
   encoder_calls (snd (get_embeddings demo_env demo_state [quote_paper])) = [[''t '']] \<and>
   encoder_calls (snd (get_embeddings demo_env
       (snd (get_embeddings demo_env demo_state [quote_paper])) [quote_paper]))
     = [[''t ''], [''t '']] \<and>
   fst (get_embeddings no_encoder_env
       (snd (get_embeddings demo_env demo_state [quote_paper])) [quote_paper]) = Inl EncoderFailure"
  by (simp add: demo_first_call demo_second_call demo_second_call_fails)
     (simp add: demo_state_def quote_paper_def sq_def)

section \<open>Properties of the graph expansion\<close>

lemma refs_loop_closed:
  "refs_loop paper_id rs (nodes, edges) =
     (fold add_node rs nodes, edges @ map (ref_edge paper_id) rs)"
  by (induction rs arbitrary: nodes edges) (simp_all add: ref_edge_def)

lemma cited_loop_closed:
  "cited_loop paper_id rs (nodes, edges) =
     (fold add_node rs nodes, edges @ map (cited_edge paper_id) rs)"
  by (induction rs arbitrary: nodes edges) (simp_all add: cited_edge_def)

lemma add_node_keys: "fst ` set (add_node r nodes) = insert (work_id r) (fst ` set nodes)"
  by (auto simp: add_node_def)

lemma fold_add_node_keys:
  "fst ` set (fold add_node rs nodes) = fst ` set nodes \<union> work_id ` set rs"
  by (induction rs arbitrary: nodes) (auto simp: add_node_keys)



lemma citation_graph_closed:
  "citation_graph st paper_id c =
     (fold add_node (cited_query st paper_id)
        (fold add_node (refs_query st paper_id) [(paper_id, central_paper c)]),
      map (ref_edge paper_id) (refs_query st paper_id) @
      map (cited_edge paper_id) (cited_query st paper_id))"
  by (simp add: citation_graph_def refs_loop_closed cited_loop_closed)

lemma citation_graph_keys:
  "fst ` set (fst (citation_graph st paper_id c)) =
     insert paper_id (work_id ` set (refs_query st paper_id) \<union> work_id ` set (cited_query st paper_id))"
  by (auto simp: citation_graph_closed fold_add_node_keys)

lemma citation_graph_edges:
  "snd (citation_graph st paper_id c) =
     map (ref_edge paper_id) (refs_query st paper_id) @
     map (cited_edge paper_id) (cited_query st paper_id)"
  by (simp add: citation_graph_closed)

lemma find_work_id: "find (\<lambda>w. work_id w = k) ws = Some r \<Longrightarrow> work_id r = k \<and> r \<in> set ws"
  by (induction ws) (auto split: if_splits)

lemma find_None_iff: "find (\<lambda>w. work_id w = k) ws = None \<longleftrightarrow> k \<notin> work_id ` set ws"
  by (induction ws) auto




lemma find_work_id_in: "find (\<lambda>w. work_id w = k) ws = Some r \<Longrightarrow> k \<in> work_id ` set ws"
  by (induction ws) (auto split: if_splits)


lemma sim_step_keys_mono:
  "k \<in> fst ` set (fst g) \<Longrightarrow> k \<in> fst ` set (fst (sim_step st paper_id sim g))"
  by (auto simp: sim_step_def split: option.splits)


lemma sim_step_edges:
  "e \<in> set (snd (sim_step st paper_id sim g)) \<Longrightarrow>
   e \<in> set (snd g) \<or>
   (e = \<lparr>source = paper_id, target = fst sim, etype = Some ''similarity''\<rparr> \<and>
    fst sim \<in> work_id ` set (works st) \<and> fst sim \<notin> fst ` set (fst g))"
proof (cases "find (\<lambda>w. work_id w = fst sim) (works st)")
  case None
  assume "e \<in> set (snd (sim_step st paper_id sim g))"
  then show ?thesis using None by (simp add: sim_step_def split: if_splits)
next
  case (Some r)
  assume e: "e \<in> set (snd (sim_step st paper_id sim g))"
  have inW: "fst sim \<in> work_id ` set (works st)" by (rule find_work_id_in[OF Some])
  show ?thesis
  proof (cases "fst sim \<in> fst ` set (fst g)")
    case True
    then show ?thesis using e by (simp add: sim_step_def)
  next
    case False
    then have "snd (sim_step st paper_id sim g) =
        snd g @ [\<lparr>source = paper_id, target = fst sim, etype = Some ''similarity''\<rparr>]"
      using Some by (simp add: sim_step_def)
    then have "e \<in> set (snd g) \<or>
        e = \<lparr>source = paper_id, target = fst sim, etype = Some ''similarity''\<rparr>"
      using e by auto
    then show ?thesis using inW False by blast
  qed
qed

lemma sim_step_edges_mono:
  "e \<in> set (snd g) \<Longrightarrow> e \<in> set (snd (sim_step st paper_id sim g))"
  by (auto simp: sim_step_def split: option.splits)

lemma sim_step_skip:
  "fst sim \<notin> work_id ` set (works st) \<Longrightarrow> sim_step st paper_id sim g = g"
  by (simp add: sim_step_def find_None_iff[symmetric])


lemma sim_loop_keys_mono:
  "k \<in> fst ` set (fst g) \<Longrightarrow> k \<in> fst ` set (fst (sim_loop st paper_id sims g))"
proof (induction sims arbitrary: g)
  case Nil then show ?case by simp
next
  case (Cons sim sims)
  show ?case using Cons.IH[OF sim_step_keys_mono[OF Cons.prems]] by simp
qed


lemma sim_loop_edges_mono:
  "e \<in> set (snd g) \<Longrightarrow> e \<in> set (snd (sim_loop st paper_id sims g))"
proof (induction sims arbitrary: g)
  case Nil then show ?case by simp
next
  case (Cons sim sims)
  show ?case using Cons.IH[OF sim_step_edges_mono[OF Cons.prems]] by simp
qed

lemma sim_loop_edges:
  "e \<in> set (snd (sim_loop st paper_id sims g)) \<Longrightarrow>
   e \<in> set (snd g) \<or>
   (etype e = Some ''similarity'' \<and> source e = paper_id \<and>
    target e \<in> fst ` set sims \<and> target e \<in> work_id ` set (works st) \<and>
    target e \<notin> fst ` set (fst g))"
proof (induction sims arbitrary: g)
  case Nil then show ?case by simp
next
  case (Cons sim sims)
  let ?g' = "sim_step st paper_id sim g"
  let ?new = "\<lparr>source = paper_id, target = fst sim, etype = Some ''similarity''\<rparr>"
  from Cons.prems have "e \<in> set (snd (sim_loop st paper_id sims ?g'))" by simp
  from Cons.IH[OF this] consider
    (step) "e \<in> set (snd ?g')"
    | (later) "etype e = Some ''similarity''" "source e = paper_id"
        "target e \<in> fst ` set sims" "target e \<in> work_id ` set (works st)"
        "target e \<notin> fst ` set (fst ?g')"
    by blast
  then show ?case
  proof cases
    case step
    from sim_step_edges[OF step] consider (old) "e \<in> set (snd g)"
      | (new) "e = ?new" "fst sim \<in> work_id ` set (works st)" "fst sim \<notin> fst ` set (fst g)"
      by blast
    then show ?thesis
    proof cases
      case old then show ?thesis by simp
    next
      case new
      have "etype e = Some ''similarity''" "source e = paper_id" "target e = fst sim"
        using new(1) by simp_all
      then show ?thesis using new(2,3) by simp
    qed
  next
    case later
    have "target e \<notin> fst ` set (fst g)"
      using later(5) sim_step_keys_mono[of "target e" g st paper_id sim] by blast
    moreover have "target e \<in> fst ` set (sim # sims)" using later(3) by simp
    ultimately show ?thesis using later(1,2,4) by blast
  qed
qed

lemma sim_loop_filter:
  "sim_loop st paper_id sims g =
   sim_loop st paper_id (filter (\<lambda>sim. fst sim \<in> work_id ` set (works st)) sims) g"
  by (induction sims arbitrary: g) (simp_all add: sim_step_skip)




lemma response_Inr:
  "response g = Inr (ps, es) \<Longrightarrow> es = snd g \<and> Papers (map snd (fst g)) = Inr ps"
  by (auto simp: response_def split: sum.splits)



text \<open>The outcome of \<^verbatim>\<open>expand_graph\<close> for a focal document that has a row: the response
  built from the graph that step 4 leaves, the rows of step 4 being looked up in the
  tables as they are after \<^verbatim>\<open>get_embeddings\<close>.\<close>

lemma log_msg_works: "works (log_msg m st) = works st"
  by (simp add: log_msg_def)

lemma expand_graph_shape:
  assumes "find (\<lambda>w. work_id w = paper_id) (works st) = Some c"
  shows "\<exists>sims :: (string \<times> 's::linorder) list.
           fst (expand_graph (en :: ('v, 's) env) st paper_id) =
             response (sim_loop (snd (expand_graph en st paper_id)) paper_id sims
                         (citation_graph st paper_id c))"
proof -
  let ?g = "citation_graph st paper_id c"
  obtain r1 st1 where ge: "get_embeddings en st [paper_of_node (central_paper c)] = (r1, st1)"
    by (cases "get_embeddings en st [paper_of_node (central_paper c)]")
  obtain r2 st2 where cs: "calculate_similarity en st1 paper_id 5 = (r2, st2)"
    by (cases "calculate_similarity en st1 paper_id 5")
  have nil: "\<And>s. sim_loop s paper_id ([] :: (string \<times> 's) list) ?g = ?g" by simp
  show ?thesis
  proof (cases r1)
    case (Inl e)
    then have "fst (expand_graph en st paper_id) = response ?g"
      using assms ge by (simp add: expand_graph_def)
    then show ?thesis by (intro exI[of _ "[]"]) (simp only: nil)
  next
    case (Inr m)
    show ?thesis
    proof (cases r2)
      case (Inl e)
      then have "fst (expand_graph en st paper_id) = response ?g"
        using assms ge cs \<open>r1 = Inr m\<close> by (simp add: expand_graph_def)
      then show ?thesis by (intro exI[of _ "[]"]) (simp only: nil)
    next
      case (Inr sims)
      then have "expand_graph en st paper_id = (response (sim_loop st2 paper_id sims ?g), st2)"
        using assms ge cs \<open>r1 = Inr m\<close> by (simp add: expand_graph_def)
      then show ?thesis by (intro exI[of _ sims]) simp
    qed
  qed
qed

lemma expand_graph_404:
  "find (\<lambda>w. work_id w = paper_id) (works st) = None \<Longrightarrow>
   expand_graph en st paper_id = (Inl HTTP404, st)"
  by (simp add: expand_graph_def)

lemma expand_graph_Inr_focal:
  assumes "fst (expand_graph en st paper_id) = Inr x"
  shows "\<exists>c. find (\<lambda>w. work_id w = paper_id) (works st) = Some c"
proof (cases "find (\<lambda>w. work_id w = paper_id) (works st)")
  case None
  then show ?thesis using assms expand_graph_404[OF None, of en] by simp
next
  case (Some c) then show ?thesis by simp
qed

lemma load_model_works: "works (snd (load_model en st)) = works st"
  by (simp add: load_model_def log_msg_def Let_def)

lemma store_new_works: "works (snd (store_new ps embs m st)) = works st"
  by (induction ps embs m st rule: store_new.induct) auto

lemma calculate_similarity_works:
  "works (snd (calculate_similarity en st seed_id limit)) = works st"
  by (simp add: calculate_similarity_def log_msg_def split: option.splits)

text \<open>For an identifier without a quote, \<^verbatim>\<open>get_embeddings\<close> leaves the table
  \<^verbatim>\<open>works\<close> as it is, and so does \<^verbatim>\<open>expand_graph\<close>.\<close>

lemma get_embeddings_works:
  assumes nq: "sq \<notin> set (p_id d)"
  shows "works (snd (get_embeddings en st [d])) = works st"
proof -
  obtain r st1 where l: "load_model en st = (r, st1)" by (cases "load_model en st")
  have w1: "works st1 = works st" using load_model_works[of en st] l by simp
  have ne: "ids_str (map p_id [d]) \<noteq> []" by (simp add: ids_str_empty)
  let ?rows = "filter (\<lambda>row. fst row \<in> set (map p_id [d])) (vector_cache st1)"
  have s: "select_cached en st1 (ids_str (map p_id [d])) = (Inr ?rows, st1)"
    using select_cached_safe[of "map p_id [d]" en st1] nq by simp
  let ?missing = "filter (\<lambda>p. p_id p \<notin> fst ` set (dict_of_rows ?rows)) [d]"
  show ?thesis
  proof (cases r)
    case (Inl e)
    then show ?thesis using l w1 by (simp add: get_embeddings_def)
  next
    case (Inr u)
    note r = this
    show ?thesis
    proof (cases "?missing = []")
      case True
      then show ?thesis using l r w1 ne s by (simp add: get_embeddings_def)
    next
      case m: False
      show ?thesis
      proof (cases "paper_texts ?missing")
        case (Inl e)
        then show ?thesis using l r w1 ne s m
          by (simp add: get_embeddings_def Let_def log_msg_def)
      next
        case (Inr texts)
        note t = this
        show ?thesis
        proof (cases "encoder en texts")
          case None
          then show ?thesis using l r w1 ne s m t
            by (simp add: get_embeddings_def Let_def log_msg_def)
        next
          case (Some embs)
          then show ?thesis using l r w1 ne s m t
            by (simp add: get_embeddings_def Let_def log_msg_def store_new_works)
        qed
      qed
    qed
  qed
qed

lemma expand_graph_works:
  assumes nq: "sq \<notin> set paper_id"
  shows "works (snd (expand_graph en st paper_id)) = works st"
proof (cases "find (\<lambda>w. work_id w = paper_id) (works st)")
  case None
  then show ?thesis by (simp add: expand_graph_404)
next
  case (Some c)
  have i: "p_id (paper_of_node (central_paper c)) = paper_id"
    using find_work_id[OF Some] by (simp add: paper_of_node_def central_paper_def)
  obtain r1 st1 where ge: "get_embeddings en st [paper_of_node (central_paper c)] = (r1, st1)"
    by (cases "get_embeddings en st [paper_of_node (central_paper c)]")
  have w1: "works st1 = works st"
    using get_embeddings_works[of "paper_of_node (central_paper c)" en st] ge nq i by simp
  obtain r2 st2 where cs: "calculate_similarity en st1 paper_id 5 = (r2, st2)"
    by (cases "calculate_similarity en st1 paper_id 5")
  have w2: "works st2 = works st"
    using calculate_similarity_works[of en st1 paper_id 5] cs w1 by simp
  show ?thesis
  proof (cases r1)
    case (Inl e)
    then show ?thesis using Some ge w1 by (simp add: expand_graph_def log_msg_works)
  next
    case (Inr m)
    show ?thesis
    proof (cases r2)
      case (Inl e)
      then show ?thesis using Some ge cs \<open>r1 = Inr m\<close> w2
        by (simp add: expand_graph_def log_msg_works)
    next
      case (Inr sims)
      then show ?thesis using Some ge cs \<open>r1 = Inr m\<close> w2
        by (simp add: expand_graph_def)
    qed
  qed
qed




lemma citation_graph_etype:
  "e \<in> set (snd (citation_graph st paper_id c)) \<Longrightarrow> etype e = None"
  by (auto simp: citation_graph_edges ref_edge_def cited_edge_def)



text \<open>
  C3, as amended. In every response of \<^verbatim>\<open>expand_graph\<close>, each document returned by
  the references query or by the citations query has its citation edge, without a
  \<^verbatim>\<open>type\<close>, in the returned edges; no edge tagged \<^verbatim>\<open>similarity\<close> points to
  such a document, whatever the similarity query returned; and every edge tagged
  \<^verbatim>\<open>similarity\<close> leaves the focal document and points to another document. A similarity
  edge is added only for a document that is not yet a node.
\<close>

theorem expand_graph_citation_pair:
  assumes res: "fst (expand_graph (en :: ('v, 's::linorder) env) st paper_id) = Inr (nodes, edges)"
  shows "(\<forall>r\<in>set (refs_query st paper_id).
            \<lparr>source = paper_id, target = work_id r, etype = None\<rparr> \<in> set edges \<and>
            (\<forall>e\<in>set edges. etype e = Some ''similarity'' \<longrightarrow> target e \<noteq> work_id r)) \<and>
         (\<forall>r\<in>set (cited_query st paper_id).
            \<lparr>source = work_id r, target = paper_id, etype = None\<rparr> \<in> set edges \<and>
            (\<forall>e\<in>set edges. etype e = Some ''similarity'' \<longrightarrow> target e \<noteq> work_id r)) \<and>
         (\<forall>e\<in>set edges. etype e = Some ''similarity'' \<longrightarrow>
            source e = paper_id \<and> target e \<noteq> paper_id)"
proof -
  from expand_graph_Inr_focal[OF res] obtain c where
    focal: "find (\<lambda>w. work_id w = paper_id) (works st) = Some c" by blast
  let ?cg = "citation_graph st paper_id c"
  let ?st = "snd (expand_graph en st paper_id)"
  from expand_graph_shape[OF focal, of en] obtain sims :: "(string \<times> 's) list" where
    "fst (expand_graph en st paper_id) = response (sim_loop ?st paper_id sims ?cg)"
    by blast
  with res have "response (sim_loop ?st paper_id sims ?cg) = Inr (nodes, edges)"
    by simp
  from response_Inr[OF this] have edges: "edges = snd (sim_loop ?st paper_id sims ?cg)" by simp
  have cg_in: "\<And>e. e \<in> set (snd ?cg) \<Longrightarrow> e \<in> set edges"
    unfolding edges by (rule sim_loop_edges_mono)
  have sim_edge: "\<And>e. e \<in> set edges \<Longrightarrow> etype e = Some ''similarity'' \<Longrightarrow>
      source e = paper_id \<and> target e \<notin> fst ` set (fst ?cg)"
  proof -
    fix e assume e: "e \<in> set edges" and t: "etype e = Some ''similarity''"
    from e have "e \<in> set (snd (sim_loop ?st paper_id sims ?cg))" by (simp only: edges)
    from sim_loop_edges[OF this] t citation_graph_etype[of e st paper_id c]
    show "source e = paper_id \<and> target e \<notin> fst ` set (fst ?cg)" by auto
  qed
  have keys: "fst ` set (fst ?cg) =
     insert paper_id (work_id ` set (refs_query st paper_id) \<union> work_id ` set (cited_query st paper_id))"
    by (rule citation_graph_keys)
  have 1: "\<forall>r\<in>set (refs_query st paper_id).
            \<lparr>source = paper_id, target = work_id r, etype = None\<rparr> \<in> set edges \<and>
            (\<forall>e\<in>set edges. etype e = Some ''similarity'' \<longrightarrow> target e \<noteq> work_id r)"
  proof
    fix r assume r: "r \<in> set (refs_query st paper_id)"
    then have "ref_edge paper_id r \<in> set (snd ?cg)" by (simp add: citation_graph_edges)
    then have a: "\<lparr>source = paper_id, target = work_id r, etype = None\<rparr> \<in> set edges"
      using cg_in by (simp add: ref_edge_def)
    have "work_id r \<in> fst ` set (fst ?cg)" unfolding keys using r by blast
    then have b: "\<forall>e\<in>set edges. etype e = Some ''similarity'' \<longrightarrow> target e \<noteq> work_id r"
      using sim_edge by metis
    from a b show "\<lparr>source = paper_id, target = work_id r, etype = None\<rparr> \<in> set edges \<and>
            (\<forall>e\<in>set edges. etype e = Some ''similarity'' \<longrightarrow> target e \<noteq> work_id r)" ..
  qed
  have 2: "\<forall>r\<in>set (cited_query st paper_id).
            \<lparr>source = work_id r, target = paper_id, etype = None\<rparr> \<in> set edges \<and>
            (\<forall>e\<in>set edges. etype e = Some ''similarity'' \<longrightarrow> target e \<noteq> work_id r)"
  proof
    fix r assume r: "r \<in> set (cited_query st paper_id)"
    then have "cited_edge paper_id r \<in> set (snd ?cg)" by (simp add: citation_graph_edges)
    then have a: "\<lparr>source = work_id r, target = paper_id, etype = None\<rparr> \<in> set edges"
      using cg_in by (simp add: cited_edge_def)
    have "work_id r \<in> fst ` set (fst ?cg)" unfolding keys using r by blast
    then have b: "\<forall>e\<in>set edges. etype e = Some ''similarity'' \<longrightarrow> target e \<noteq> work_id r"
      using sim_edge by metis
    from a b show "\<lparr>source = work_id r, target = paper_id, etype = None\<rparr> \<in> set edges \<and>
            (\<forall>e\<in>set edges. etype e = Some ''similarity'' \<longrightarrow> target e \<noteq> work_id r)" ..
  qed
  have "paper_id \<in> fst ` set (fst ?cg)" unfolding keys by blast
  then have 3: "\<forall>e\<in>set edges. etype e = Some ''similarity'' \<longrightarrow>
            source e = paper_id \<and> target e \<noteq> paper_id"
    using sim_edge by metis
  from 1 2 3 show ?thesis by (intro conjI)
qed


lemma sq_notin_D: "sq \<notin> set ''D1''" "sq \<notin> set ''D4''"
  by (simp_all add: sq_def)

lemma demo_focal_D1: "find (\<lambda>w. work_id w = ''D1'') (works demo_state) = Some (demo_row ''D1'')"
  by (simp add: demo_state_def demo_row_def)


lemma demo_works: "works demo_state = [demo_row ''D1'', demo_row ''D2'', demo_row ''D3'',
      demo_row ''D4'', demo_row ''D5'']"
  by (simp add: demo_state_def)

lemma demo_citations: "citations demo_state = [(''D1'', ''D2''), (''D1'', ''D3''), (''D4'', ''D1'')]"
  by (simp add: demo_state_def)

lemma demo_row_id [simp]: "work_id (demo_row i) = i"
  by (simp add: demo_row_def)

lemma demo_refs_D1: "refs_query demo_state ''D1'' = [demo_row ''D2'', demo_row ''D3'']"
  by (simp add: refs_query_def demo_works demo_citations)

lemma demo_cited_D1: "cited_query demo_state ''D1'' = [demo_row ''D4'']"
  by (simp add: cited_query_def demo_works demo_citations)



lemma demo_citation_graph_D1:
  "citation_graph demo_state ''D1'' (demo_row ''D1'') =
     ([(''D1'', central_paper (demo_row ''D1'')), (''D2'', node_of_row (demo_row ''D2'')),
       (''D3'', node_of_row (demo_row ''D3'')), (''D4'', node_of_row (demo_row ''D4''))],
      [\<lparr>source = ''D1'', target = ''D2'', etype = None\<rparr>,
       \<lparr>source = ''D1'', target = ''D3'', etype = None\<rparr>,
       \<lparr>source = ''D4'', target = ''D1'', etype = None\<rparr>])"
  by (simp add: citation_graph_def demo_refs_D1 demo_cited_D1 add_node_def)


lemma demo_cache: "vector_cache demo_state = [(''D1'', [1, 0]), (''D2'', [1, 0]), (''X9'', [0, 1]), (''D5'', [1, 0])]"
  by (simp add: demo_state_def)

lemma demo_loaded: "is_loaded demo_state"
  by (simp add: demo_state_def)

lemma demo_focal_id: "p_id (paper_of_node (central_paper (demo_row i))) = i"
  by (simp add: paper_of_node_def central_paper_def demo_row_def)

lemma demo_get_embeddings_D1:
  "get_embeddings demo_env demo_state [paper_of_node (central_paper (demo_row ''D1''))] =
     (Inr [(''D1'', [1, 0])], demo_state)"
proof -
  let ?d = "paper_of_node (central_paper (demo_row ''D1''))"
  have "get_embeddings demo_env demo_state [?d] = (Inr [(p_id ?d, [1, 0])], demo_state)"
  proof (rule get_embeddings_cache_hit)
    show "sq \<notin> set (p_id ?d)" by (simp add: demo_focal_id sq_def)
    show "is_loaded demo_state" by (rule demo_loaded)
    show "distinct (map fst (vector_cache demo_state))" by (simp add: demo_cache)
    show "map_of (vector_cache demo_state) (p_id ?d) = Some [1, 0]"
      by (simp add: demo_focal_id demo_cache)
  qed
  then show ?thesis by (simp only: demo_focal_id)
qed

lemma demo_find_D5: "find (\<lambda>w. work_id w = ''D5'') (works demo_state) = Some (demo_row ''D5'')"
  by (simp add: demo_works)

lemma demo_find_X9: "find (\<lambda>w. work_id w = ''X9'') (works demo_state) = None"
  by (simp add: demo_works)

lemma demo_sim_loop_D1:
  "sim_loop demo_state ''D1'' [(''D5'', 1::int), (''D2'', 1), (''X9'', 0)]
        (citation_graph demo_state ''D1'' (demo_row ''D1'')) =
     ([(''D1'', central_paper (demo_row ''D1'')), (''D2'', node_of_row (demo_row ''D2'')),
       (''D3'', node_of_row (demo_row ''D3'')), (''D4'', node_of_row (demo_row ''D4'')),
       (''D5'', node_of_row (demo_row ''D5''))],
      [\<lparr>source = ''D1'', target = ''D2'', etype = None\<rparr>,
       \<lparr>source = ''D1'', target = ''D3'', etype = None\<rparr>,
       \<lparr>source = ''D4'', target = ''D1'', etype = None\<rparr>,
       \<lparr>source = ''D1'', target = ''D5'', etype = Some ''similarity''\<rparr>])"
  by (simp add: demo_citation_graph_D1 sim_step_def demo_find_D5 demo_find_X9)

lemma demo_Paper_of:
  "Paper_of (central_paper (demo_row i)) = Inr (demo_Paper i)"
  "Paper_of (node_of_row (demo_row i)) = Inr (demo_Paper i)"
  by (simp_all add: Paper_of_def central_paper_def node_of_row_def demo_row_def demo_Paper_def)

lemma demo_expand_D1:
  "expand_graph demo_env demo_state ''D1'' = (Inr demo_graph_D1, demo_state)"
  by (simp add: expand_graph_def Let_def demo_focal_D1 demo_get_embeddings_D1 demo_sim
      demo_sim_loop_D1 response_def demo_Paper_of demo_graph_D1_def del: sim_loop.simps)

text \<open>
  C3 as stated fails on the example data: \<^verbatim>\<open>D1\<close> cites \<^verbatim>\<open>D2\<close>, and
  \<^verbatim>\<open>D2\<close> is among the similarity results for \<^verbatim>\<open>D1\<close>, yet the only edge
  between the two in the response is the citation edge; the one similarity edge goes to
  \<^verbatim>\<open>D5\<close>, which no citation connects to \<^verbatim>\<open>D1\<close>.
\<close>

theorem expand_graph_both_edges_counterexample:
  "(''D1'', ''D2'') \<in> set (citations demo_state) \<and>
   calculate_similarity demo_env demo_state ''D1'' 5 =
     (Inr [(''D5'', 1), (''D2'', 1), (''X9'', 0)], demo_state) \<and>
   fst (expand_graph demo_env demo_state ''D1'') =
     Inr ([demo_Paper ''D1'', demo_Paper ''D2'', demo_Paper ''D3'', demo_Paper ''D4'',
           demo_Paper ''D5''],
          [\<lparr>source = ''D1'', target = ''D2'', etype = None\<rparr>,
           \<lparr>source = ''D1'', target = ''D3'', etype = None\<rparr>,
           \<lparr>source = ''D4'', target = ''D1'', etype = None\<rparr>,
           \<lparr>source = ''D1'', target = ''D5'', etype = Some ''similarity''\<rparr>])"
  by (simp add: demo_expand_D1 demo_sim demo_citations demo_graph_D1_def)

text \<open>The amended C3 on the example data.\<close>

theorem expand_graph_citation_pair_witness:
  "fst (expand_graph demo_env demo_state ''D1'') = Inr (fst demo_graph_D1, snd demo_graph_D1) \<and>
   demo_row ''D2'' \<in> set (refs_query demo_state ''D1'') \<and>
   \<lparr>source = ''D1'', target = ''D2'', etype = None\<rparr> \<in> set (snd demo_graph_D1) \<and>
   (\<nexists>e. e \<in> set (snd demo_graph_D1) \<and> etype e = Some ''similarity'' \<and> target e = ''D2'') \<and>
   demo_row ''D4'' \<in> set (cited_query demo_state ''D1'') \<and>
   \<lparr>source = ''D4'', target = ''D1'', etype = None\<rparr> \<in> set (snd demo_graph_D1) \<and>
   (\<nexists>e. e \<in> set (snd demo_graph_D1) \<and> etype e = Some ''similarity'' \<and> target e = ''D4'') \<and>
   \<lparr>source = ''D1'', target = ''D5'', etype = Some ''similarity''\<rparr> \<in> set (snd demo_graph_D1)"
proof -
  have r: "fst (expand_graph demo_env demo_state ''D1'') = Inr (fst demo_graph_D1, snd demo_graph_D1)"
    by (simp add: demo_expand_D1)
  from expand_graph_citation_pair[OF r] r show ?thesis
    by (auto simp add: demo_refs_D1 demo_cited_D1 demo_graph_D1_def)
qed











section \<open>Properties of the ingestion worker and the store writer\<close>











text \<open>
  C9. Whatever the download does (it succeeds, or it raises and leaves nothing or a
  partial file) and whatever the lines hold, the local file of the worker's process does
  not exist when \<^verbatim>\<open>process_single_file\<close> has returned.
\<close>

theorem process_single_file_removes_temp:
  "fst (snd (process_single_file en s3_key files)) (local_filename (getpid en)) = None"
  by (simp add: process_single_file_def split: prod.splits)



























end
